theory Spec2Isabelle
  imports Complex_Main "HOL-Library.AList"
begin

section \<open>JavaScript values\<close>

text \<open>
  The directive of \<^verbatim>\<open>src/ngPlacesAutocomplete.js\<close> passes untyped JavaScript values
  between the host scope, the input element and the mapping service. They are modelled by
  one datatype. A number is a real (NaN and the infinities are not represented), an array
  is the list of its elements and an object is the association list of its own properties.
\<close>

datatype jsval =
    JUndefined
  | JNull
  | JBool bool
  | JNum real
  | JStr string
  | JArr "jsval list"
  | JObj "(string \<times> jsval) list"

text \<open>
  What a handler can throw: a type error of the language, and the error of the framework
  for a \<^verbatim>\<open>scope.$apply\<close> that is called while a digest is in progress.
\<close>

datatype error = TypeError | ApplyInProgress

text \<open>What \<^verbatim>\<open>if (v)\<close>, \<^verbatim>\<open>v && w\<close> and \<^verbatim>\<open>v || w\<close> test.\<close>

fun truthy :: "jsval \<Rightarrow> bool" where
  "truthy JUndefined = False"
| "truthy JNull = False"
| "truthy (JBool b) = b"
| "truthy (JNum r) = (r \<noteq> 0)"
| "truthy (JStr t) = (t \<noteq> [])"
| "truthy (JArr xs) = True"
| "truthy (JObj kvs) = True"

definition objGet :: "(string \<times> jsval) list \<Rightarrow> string \<Rightarrow> jsval" where
  "objGet kvs k = (case map_of kvs k of Some v \<Rightarrow> v | None \<Rightarrow> JUndefined)"

text \<open>
  The member read \<^verbatim>\<open>v.k\<close>: a type error on \<^verbatim>\<open>undefined\<close> and \<^verbatim>\<open>null\<close>, the own
  property of an object (\<^verbatim>\<open>undefined\<close> when it has none), the length of a string or an
  array, and \<^verbatim>\<open>undefined\<close> on every other primitive.
\<close>

fun getProp :: "jsval \<Rightarrow> string \<Rightarrow> error + jsval" where
  "getProp JUndefined k = Inl TypeError"
| "getProp JNull k = Inl TypeError"
| "getProp (JObj kvs) k = Inr (objGet kvs k)"
| "getProp (JStr t) k = Inr (if k = ''length'' then JNum (of_nat (length t)) else JUndefined)"
| "getProp (JArr xs) k = Inr (if k = ''length'' then JNum (of_nat (length xs)) else JUndefined)"
| "getProp (JBool b) k = Inr JUndefined"
| "getProp (JNum r) k = Inr JUndefined"

text \<open>The indexed read \<^verbatim>\<open>v[0]\<close>.\<close>

fun elem0 :: "jsval \<Rightarrow> error + jsval" where
  "elem0 JUndefined = Inl TypeError"
| "elem0 JNull = Inl TypeError"
| "elem0 (JArr xs) = Inr (case xs of [] \<Rightarrow> JUndefined | x # _ \<Rightarrow> x)"
| "elem0 (JStr t) = Inr (case t of [] \<Rightarrow> JUndefined | c # _ \<Rightarrow> JStr [c])"
| "elem0 (JObj kvs) = Inr (objGet kvs ''0'')"
| "elem0 (JBool b) = Inr JUndefined"
| "elem0 (JNum r) = Inr JUndefined"

text \<open>The assignment \<^verbatim>\<open>o[k] = v\<close> on an object literal held in a local variable.\<close>

fun setProp :: "jsval \<Rightarrow> string \<Rightarrow> jsval \<Rightarrow> jsval" where
  "setProp (JObj kvs) k v = JObj (AList.update k v kvs)"
| "setProp w k v = w"

text \<open>
  The guard \<^verbatim>\<open>v && v.k\<close>: the member is read only when \<^verbatim>\<open>v\<close> is truthy, so the read
  cannot fail.
\<close>

definition truthyProp :: "jsval \<Rightarrow> string \<Rightarrow> bool" where
  "truthyProp v k = (truthy v \<and> (case getProp v k of Inl e \<Rightarrow> False | Inr w \<Rightarrow> truthy w))"

text \<open>
  The comparison \<^verbatim>\<open>v > 0\<close> of \<^verbatim>\<open>getPlace\<close>. \<^verbatim>\<open>undefined\<close> converts to NaN and
  \<^verbatim>\<open>null\<close> to 0, a boolean to 0 or 1. The value compared is a length, which is a number
  or \<^verbatim>\<open>undefined\<close> for every string, array and primitive; the numeric conversion of a
  string or an object is not written out.
\<close>

fun gt0 :: "jsval \<Rightarrow> bool" where
  "gt0 (JNum r) = (0 < r)"
| "gt0 (JBool b) = b"
| "gt0 v = False"

text \<open>
  The three watchers are registered with object equality, so the digest compares the value
  of a binding with the value it saw last by \<^verbatim>\<open>angular.equals\<close>: arrays element by
  element, plain objects key by key without regard to the order of the keys (keys that
  start with \<^verbatim>\<open>$\<close> are skipped, and a key that only the second object has counts
  only when its value is defined), everything else by identity of the value. An object
  lists each of its keys once.
\<close>

fun dollarKey :: "string \<Rightarrow> bool" where
  "dollarKey [] = False"
| "dollarKey (c # cs) = (c = CHR ''$'')"

fun angularEquals :: "jsval \<Rightarrow> jsval \<Rightarrow> bool" where
  "angularEquals (JArr xs) (JArr ys) = list_all2 (\<lambda>x y. angularEquals x y) xs ys"
| "angularEquals (JObj kvs) (JObj kws) =
     (list_all (\<lambda>(k, v). dollarKey k \<or> angularEquals v (objGet kws k)) kvs \<and>
      list_all (\<lambda>(k, w). dollarKey k \<or> k \<in> fst ` set kvs \<or> w = JUndefined) kws)"
| "angularEquals v w = (v = w)"

section \<open>The state of one attached directive\<close>

text \<open>
  The autocomplete widget \<^verbatim>\<open>scope.gPlace\<close> belongs to the mapping service. The directive
  only calls its setters and \<^verbatim>\<open>getPlace()\<close>, so the widget is the record of the value last
  handed to each setter and of the place it currently reports.
\<close>

record autocomplete =
  acTypes :: jsval
  acBounds :: jsval
  acComponentRestrictions :: jsval
  acFields :: jsval
  acPlace :: jsval

definition newAutocomplete :: autocomplete where
  "newAutocomplete = \<lparr> acTypes = JUndefined, acBounds = JUndefined,
     acComponentRestrictions = JUndefined, acFields = JUndefined, acPlace = JUndefined \<rparr>"

text \<open>Calls that leave the directive: service requests, console output, scope events.\<close>

datatype effect =
    GetPlacePredictions jsval
  | GetDetails jsval
  | Geocode jsval
  | ConsoleWarn string
  | Emit string
  | Blur
  | ExceptionHandler error

text \<open>
  \<^verbatim>\<open>options\<close>, \<^verbatim>\<open>details\<close>, \<^verbatim>\<open>placeId\<close>, \<^verbatim>\<open>initialAddress\<close> and \<^verbatim>\<open>gPlace\<close> are the members
  of the isolate scope; \<^verbatim>\<open>watchEnter\<close> and \<^verbatim>\<open>opts\<close> are the local variables of
  \<^verbatim>\<open>link\<close> (\<^verbatim>\<open>opts\<close> is always an object: the list of its properties);
  \<^verbatim>\<open>viewValue\<close> is \<^verbatim>\<open>controller.$viewValue\<close>, the bound value that
  \<^verbatim>\<open>$setViewValue\<close> writes; \<^verbatim>\<open>elementVal\<close> is what \<^verbatim>\<open>element.val()\<close> returns;
  \<^verbatim>\<open>focused\<close> tells whether the field has the focus;
  \<^verbatim>\<open>focusoutHandlers\<close> holds, for each registered focusout listener, the address it
  re-asserts; \<^verbatim>\<open>registered\<close> names the listeners and watchers registered so far;
  \<^verbatim>\<open>lastOptions\<close>, \<^verbatim>\<open>lastPlaceId\<close> and \<^verbatim>\<open>lastInitialAddress\<close> are the values the
  three watchers saw last (\<open>None\<close> before their first run);
  \<^verbatim>\<open>effects\<close> is the trace of outgoing calls, oldest first.
\<close>

record state =
  options :: jsval
  details :: jsval
  placeId :: jsval
  initialAddress :: jsval
  gPlace :: "autocomplete option"
  watchEnter :: bool
  opts :: "(string \<times> jsval) list"
  viewValue :: jsval
  elementVal :: jsval
  focused :: bool
  focusoutHandlers :: "jsval list"
  registered :: "string list"
  lastOptions :: "jsval option"
  lastPlaceId :: "jsval option"
  lastInitialAddress :: "jsval option"
  effects :: "effect list"

text \<open>
  A handler either runs to its end (\<open>Inr\<close> the new state) or throws (\<open>Inl\<close> the error
  with the state reached when it was thrown).
\<close>

type_synonym outcome = "(error \<times> state) + state"

definition thenDo :: "outcome \<Rightarrow> (state \<Rightarrow> outcome) \<Rightarrow> outcome" where
  "thenDo r f = (case r of Inl e \<Rightarrow> Inl e | Inr s \<Rightarrow> f s)"

definition emit :: "effect \<Rightarrow> state \<Rightarrow> state" where
  "emit e s = s\<lparr>effects := effects s @ [e]\<rparr>"

text \<open>
  A method call on \<^verbatim>\<open>scope.gPlace\<close>: a type error while the widget is
  \<^verbatim>\<open>undefined\<close>.
\<close>

definition onWidget :: "(autocomplete \<Rightarrow> autocomplete) \<Rightarrow> state \<Rightarrow> outcome" where
  "onWidget f s = (case gPlace s of None \<Rightarrow> Inl (TypeError, s)
                   | Some g \<Rightarrow> Inr (s\<lparr>gPlace := Some (f g)\<rparr>))"

text \<open>
  \<^verbatim>\<open>element.val(v)\<close> of jqLite: with \<^verbatim>\<open>undefined\<close> it is the read and writes nothing.
  A string is stored as it is; the conversion of any other value to text is done by the
  DOM and is not written out.
\<close>

definition elementValSet :: "jsval \<Rightarrow> state \<Rightarrow> state" where
  "elementValSet v s = (if v = JUndefined then s else s\<lparr>elementVal := v\<rparr>)"

definition setViewValue :: "jsval \<Rightarrow> state \<Rightarrow> state" where
  "setViewValue v s = s\<lparr>viewValue := v\<rparr>"

definition defaultPlacesFields :: jsval where
  "defaultPlacesFields = JArr [JStr ''address_component'', JStr ''adr_address'',
     JStr ''formatted_address'', JStr ''geometry'', JStr ''icon'', JStr ''name'',
     JStr ''permanently_closed'', JStr ''photo'', JStr ''place_id'', JStr ''plus_code'',
     JStr ''type'', JStr ''url'', JStr ''vicinity'']"

section \<open>initOpts\<close>

definition initWatchEnter :: "state \<Rightarrow> outcome" where
  "initWatchEnter s =
     (case getProp (options s) ''watchEnter'' of Inl e \<Rightarrow> Inl (e, s)
      | Inr w \<Rightarrow> if w \<noteq> JBool True then Inr (s\<lparr>watchEnter := False\<rparr>)
                 else Inr (s\<lparr>watchEnter := True\<rparr>))"

definition initTypes :: "state \<Rightarrow> outcome" where
  "initTypes s =
     (case getProp (options s) ''types'' of Inl e \<Rightarrow> Inl (e, s)
      | Inr t \<Rightarrow> if truthy t
                 then onWidget (\<lambda>g. g\<lparr>acTypes := t\<rparr>) (s\<lparr>opts := AList.update ''types'' t (opts s)\<rparr>)
                 else onWidget (\<lambda>g. g\<lparr>acTypes := JArr []\<rparr>) s)"

definition initBounds :: "state \<Rightarrow> outcome" where
  "initBounds s =
     (case getProp (options s) ''bounds'' of Inl e \<Rightarrow> Inl (e, s)
      | Inr b \<Rightarrow> if truthy b
                 then onWidget (\<lambda>g. g\<lparr>acBounds := b\<rparr>) (s\<lparr>opts := AList.update ''bounds'' b (opts s)\<rparr>)
                 else onWidget (\<lambda>g. g\<lparr>acBounds := JNull\<rparr>) s)"

definition initCountry :: "state \<Rightarrow> outcome" where
  "initCountry s =
     (case getProp (options s) ''country'' of Inl e \<Rightarrow> Inl (e, s)
      | Inr c \<Rightarrow> if truthy c
                 then onWidget (\<lambda>g. g\<lparr>acComponentRestrictions := JObj [(''country'', c)]\<rparr>)
                        (s\<lparr>opts := AList.update ''componentRestrictions''
                                     (JObj [(''country'', c)]) (opts s)\<rparr>)
                 else onWidget (\<lambda>g. g\<lparr>acComponentRestrictions := JNull\<rparr>) s)"

definition initFields :: "state \<Rightarrow> outcome" where
  "initFields s =
     (case getProp (options s) ''fields'' of Inl e \<Rightarrow> Inl (e, s)
      | Inr f \<Rightarrow> if truthy f
                 then onWidget (\<lambda>g. g\<lparr>acFields := f\<rparr>) (s\<lparr>opts := AList.update ''fields'' f (opts s)\<rparr>)
                 else onWidget (\<lambda>g. g\<lparr>acFields := JNull\<rparr>) s)"

definition initOpts :: "state \<Rightarrow> outcome" where
  "initOpts s =
     (if truthy (options s)
      then thenDo (thenDo (thenDo (thenDo (initWatchEnter s) initTypes) initBounds)
                     initCountry) initFields
      else Inr s)"

section \<open>getPlaceDetails and its callback\<close>

text \<open>
  \<^verbatim>\<open>getPlaceDetails(list)\<close> builds the request and hands it to
  \<^verbatim>\<open>placesService.getDetails\<close>; \<^verbatim>\<open>initPlace\<close> calls it without an argument, so
  \<^verbatim>\<open>list\<close> is \<^verbatim>\<open>undefined\<close> there.
\<close>

definition getPlaceDetails :: "jsval \<Rightarrow> state \<Rightarrow> outcome" where
  "getPlaceDetails list s =
     (let request = JObj [(''fields'', defaultPlacesFields)];
          request = (if truthy (placeId s) then setProp request ''placeId'' (placeId s)
                     else request)
      in if truthy list
         then (case elem0 list of Inl e \<Rightarrow> Inl (e, s)
               | Inr p \<Rightarrow> (case getProp p ''reference'' of Inl e \<Rightarrow> Inl (e, s)
                          | Inr r \<Rightarrow> Inr (emit (GetDetails (setProp request ''reference'' r)) s)))
         else Inr (emit (GetDetails request) s))"

text \<open>
  The service statuses are the string constants of the mapping library;
  \<^verbatim>\<open>google.maps.GeocoderStatus.OK\<close> is \<^verbatim>\<open>"OK"\<close>.
\<close>

definition statusOK :: string where
  "statusOK = ''OK''"

text \<open>
  The body that both success callbacks hand to \<^verbatim>\<open>scope.$apply\<close>: it reads
  \<^verbatim>\<open>formatted_address\<close> of the result three times, writes the bound value, the field
  and \<^verbatim>\<open>scope.details\<close>, and registers a focusout listener. \<^verbatim>\<open>$apply\<close> catches what its
  argument throws and passes it to the exception handler of the framework.
\<close>

definition applyResolved :: "jsval \<Rightarrow> state \<Rightarrow> state" where
  "applyResolved r s =
     (case getProp r ''formatted_address'' of
        Inl e \<Rightarrow> emit (ExceptionHandler e) s
      | Inr a \<Rightarrow> (elementValSet a (setViewValue a s))
                   \<lparr>details := r, focusoutHandlers := focusoutHandlers s @ [a]\<rparr>)"

definition detailsresult :: "jsval \<Rightarrow> string \<Rightarrow> state \<Rightarrow> outcome" where
  "detailsresult detailsResult placesServiceStatus s =
     (if placesServiceStatus = statusOK then Inr (applyResolved detailsResult s) else Inr s)"

section \<open>initPlace and initInitialAddress\<close>

definition initPlace :: "state \<Rightarrow> outcome" where
  "initPlace s = (if truthy (placeId s) then getPlaceDetails JUndefined s else Inr s)"

definition initInitialAddress :: "state \<Rightarrow> outcome" where
  "initInitialAddress s =
     (if truthy (placeId s)
      then Inr (emit (ConsoleWarn ''Using PlaceId to configure the Autocomplete component.'') s)
      else if truthy (initialAddress s) \<and> truthyProp (initialAddress s) ''lat''
              \<and> truthyProp (initialAddress s) ''lng''
      then Inr (emit (Geocode (JObj [(''location'', initialAddress s)])) s)
      else Inr s)"

definition geocodeCallback :: "jsval \<Rightarrow> string \<Rightarrow> state \<Rightarrow> outcome" where
  "geocodeCallback results status s =
     (if status = statusOK
      then (case elem0 results of Inl e \<Rightarrow> Inl (e, s)
            | Inr r \<Rightarrow> if truthy r then Inr (applyResolved r s)
                       else Inr (emit (ConsoleWarn ''No results found'') s))
      else Inr (emit (ConsoleWarn (''Geocoder failed due to: '' @ status)) s))"

section \<open>Focus\<close>

text \<open>
  A focusout event on the field runs every registered focusout listener in the order of
  registration; each writes its address to the field and unbinds all focusout listeners.
\<close>

definition runFocusout :: "state \<Rightarrow> state" where
  "runFocusout s =
     (fold elementValSet (focusoutHandlers s) s)\<lparr>focusoutHandlers := [], focused := False\<rparr>"

text \<open>
  \<^verbatim>\<open>element[0].blur()\<close>: when the field has the focus it loses it, and the focusout
  event is dispatched before the call returns; otherwise the call does nothing.
\<close>

definition blur :: "state \<Rightarrow> state" where
  "blur s = (let s1 = emit Blur s in if focused s1 then runFocusout s1 else s1)"

section \<open>Key handler, place_changed listener, getPlace\<close>

definition keyHandler :: "nat \<Rightarrow> state \<Rightarrow> outcome" where
  "keyHandler which s = (if which = 13 then Inr (setViewValue (elementVal s) s) else Inr s)"

definition listentoresult :: "jsval \<Rightarrow> string \<Rightarrow> state \<Rightarrow> outcome" where
  "listentoresult list status s =
     (if list = JNull
      then Inr ((emit (Emit ''ngPlacesAutocomplete:no-results'') s)\<lparr>details := JNull\<rparr>)
      else (case getProp list ''length'' of Inl e \<Rightarrow> Inl (e, s)
            | Inr n \<Rightarrow> if n = JNum 0
                       then Inr ((emit (Emit ''ngPlacesAutocomplete:no-results'') s)
                                   \<lparr>details := JNull\<rparr>)
                       else getPlaceDetails list s))"

definition getPlace :: "jsval \<Rightarrow> state \<Rightarrow> outcome" where
  "getPlace result s =
     (case getProp result ''name'' of Inl e \<Rightarrow> Inl (e, s)
      | Inr name \<Rightarrow>
         (case getProp name ''length'' of Inl e \<Rightarrow> Inl (e, s)
          | Inr n \<Rightarrow>
             if gt0 n
             then (case getProp (options s) ''types'' of Inl e \<Rightarrow> Inl (e, s)
                   | Inr t \<Rightarrow>
                      Inr (emit (GetPlacePredictions (JObj [(''input'', name), (''offset'', n),
                             (''componentRestrictions'', objGet (opts s) ''componentRestrictions''),
                             (''types'', if truthy t then t else JArr [])])) s))
             else Inr s))"

text \<open>
  The listener of \<^verbatim>\<open>place_changed\<close>. Its first branch calls \<^verbatim>\<open>scope.$apply\<close>, which
  throws when the framework is already in a digest; \<open>inDigest\<close> tells whether it is. The
  widget fires the event from a browser event, outside any digest.
\<close>

definition placeChangedIn :: "bool \<Rightarrow> state \<Rightarrow> outcome" where
  "placeChangedIn inDigest s =
     (case gPlace s of None \<Rightarrow> Inl (TypeError, s)
      | Some g \<Rightarrow>
         (let result = acPlace g
          in if truthyProp result ''address_components''
             then (if inDigest then Inl (ApplyInProgress, s)
                   else Inr (setViewValue (elementVal s) (s\<lparr>details := result\<rparr>)))
             else if watchEnter s
             then thenDo (getPlace (JObj [(''name'', viewValue s)]) s) (\<lambda>s'. Inr (blur s'))
             else Inr s))"

definition placeChanged :: "state \<Rightarrow> outcome" where
  "placeChanged s = placeChangedIn False s"

section \<open>link\<close>

definition link :: "state \<Rightarrow> outcome" where
  "link s =
     (let s1 = s\<lparr>watchEnter := False, opts := [],
                 registered := registered s @ [''keydown keypress'']\<rparr>
      in thenDo
           (if gPlace s1 = None
            then (let s2 = s1\<lparr>gPlace := Some newAutocomplete\<rparr>
                  in case getProp (options s2) ''fields'' of Inl e \<Rightarrow> Inl (e, s2)
                     | Inr f \<Rightarrow> if f = JUndefined
                                then onWidget (\<lambda>g. g\<lparr>acFields := defaultPlacesFields\<rparr>) s2
                                else Inr s2)
            else Inr s1)
           (\<lambda>s3. Inr (s3\<lparr>registered := registered s3 @ [''place_changed'', ''$render'',
                          ''$watch options'', ''$watch placeId'', ''$watch initialAddress'',
                          ''$on ngPlacesAutocomplete:submit''],
                        lastOptions := None, lastPlaceId := None,
                        lastInitialAddress := None\<rparr>)))"

text \<open>\<^verbatim>\<open>controller.$render\<close> as the directive replaces it.\<close>

definition render :: "state \<Rightarrow> outcome" where
  "render s = Inr (elementValSet (viewValue s) s)"

section \<open>The digest\<close>

text \<open>
  A watcher is dirty before its first run and whenever the value of its binding differs
  from the value it saw last. The digest visits the watchers in the order of their
  registration; for a dirty one it records the value and calls the listener, and what the
  listener throws goes to the exception handler of the framework. The listeners do not
  write to the watched bindings, so one pass leaves every watcher clean.
  \<^verbatim>\<open>scope.$apply\<close> in a handler ends with a digest as well; the bindings change only in
  the host events below, which run the digest themselves, so that digest finds the watchers
  clean and is not written out in the handlers.
\<close>

definition dirty :: "jsval option \<Rightarrow> jsval \<Rightarrow> bool" where
  "dirty seen v = (case seen of None \<Rightarrow> True | Some w \<Rightarrow> \<not> angularEquals v w)"

definition caught :: "outcome \<Rightarrow> state" where
  "caught r = (case r of Inl (e, s) \<Rightarrow> emit (ExceptionHandler e) s | Inr s \<Rightarrow> s)"

definition watchOptions :: "state \<Rightarrow> state" where
  "watchOptions s =
     (if dirty (lastOptions s) (options s)
      then caught (initOpts (s\<lparr>lastOptions := Some (options s)\<rparr>)) else s)"

definition watchPlace :: "state \<Rightarrow> state" where
  "watchPlace s =
     (if dirty (lastPlaceId s) (placeId s)
      then caught (initPlace (s\<lparr>lastPlaceId := Some (placeId s)\<rparr>)) else s)"

definition watchAddress :: "state \<Rightarrow> state" where
  "watchAddress s =
     (if dirty (lastInitialAddress s) (initialAddress s)
      then caught (initInitialAddress (s\<lparr>lastInitialAddress := Some (initialAddress s)\<rparr>))
      else s)"

definition digest :: "state \<Rightarrow> state" where
  "digest s = watchAddress (watchPlace (watchOptions s))"

section \<open>Interactions\<close>

text \<open>
  One press of Enter in the field. The directive bound its key handler before it built the
  widget, so on keydown its handler runs first; the widget then reports the place \<open>r\<close>
  it holds (without a chosen suggestion, an object with only the typed \<^verbatim>\<open>name\<close>) and
  fires \<^verbatim>\<open>place_changed\<close>; the keypress that follows goes to the field, and runs the key
  handler again, only if the field still has the focus. The field has the focus when a key
  is pressed in it. The press ends at the first handler that throws.
\<close>

definition enterPress :: "jsval \<Rightarrow> state \<Rightarrow> outcome" where
  "enterPress r s =
     thenDo (thenDo (thenDo (keyHandler 13 (s\<lparr>focused := True\<rparr>))
                       (onWidget (\<lambda>g. g\<lparr>acPlace := r\<rparr>))) placeChanged)
       (\<lambda>s'. if focused s' then keyHandler 13 s' else Inr s')"

text \<open>
  The user picks an entry of the dropdown. The widget, not the directive, writes the text
  \<open>t\<close> of that entry into the field and holds its place \<open>r\<close>; then it fires
  \<^verbatim>\<open>place_changed\<close>.
\<close>

definition selectSuggestion :: "jsval \<Rightarrow> jsval \<Rightarrow> state \<Rightarrow> outcome" where
  "selectSuggestion t r s =
     thenDo (onWidget (\<lambda>g. g\<lparr>acPlace := r\<rparr>) (s\<lparr>elementVal := t\<rparr>)) placeChanged"

text \<open>
  The host assigns \<^verbatim>\<open>place-id\<close> and \<^verbatim>\<open>initial-address\<close> in one turn; the digest that
  follows runs the watchers that it finds dirty.
\<close>

definition supplyPlace :: "jsval \<Rightarrow> jsval \<Rightarrow> state \<Rightarrow> state" where
  "supplyPlace p a s = digest (s\<lparr>placeId := p, initialAddress := a\<rparr>)"

text \<open>The watcher of \<^verbatim>\<open>options\<close> runs its listener on a new value \<open>v\<close>.\<close>

definition supplyOptions :: "jsval \<Rightarrow> state \<Rightarrow> outcome" where
  "supplyOptions v s = initOpts (s\<lparr>options := v\<rparr>)"

text \<open>
  Everything that can happen to an attached directive.
  \<^item> The host assigns a binding and the digest follows (\<open>OptionsChanged\<close>,
    \<open>PlaceIdChanged\<close>, \<open>InitialAddressChanged\<close>), or a digest runs with no assignment.
  \<^item> The field gains the focus, loses it, or receives a key event while it has it.
  \<^item> The text of the field changes, typed by the user or written by the widget
    (\<open>FieldText\<close>). What the framework then derives from the text and stores as the view
    value is an event of its own (\<open>ViewValue\<close>), as is any other write of the view value
    from outside the directive.
  \<^item> The host changes the model: the framework stores the formatted value \<open>v\<close> as the
    view value and calls \<^verbatim>\<open>$render\<close> (\<open>Render\<close>).
  \<^item> The widget changes the place it holds, or fires \<^verbatim>\<open>place_changed\<close>.
  \<^item> The host sends the submit event, from inside a digest or not; its listener triggers
    \<^verbatim>\<open>place_changed\<close> on the widget.
  \<^item> A service calls back.
\<close>

datatype event =
    OptionsChanged jsval
  | PlaceIdChanged jsval
  | InitialAddressChanged jsval
  | Digest
  | Focus
  | FocusOut
  | Key nat
  | FieldText jsval
  | ViewValue jsval
  | Render jsval
  | WidgetPlace jsval
  | PlaceChanged
  | Submit bool
  | PredictionsReply jsval string
  | DetailsReply jsval string
  | GeocodeReply jsval string

fun fire :: "event \<Rightarrow> state \<Rightarrow> outcome" where
  "fire (OptionsChanged v) s = Inr (digest (s\<lparr>options := v\<rparr>))"
| "fire (PlaceIdChanged v) s = Inr (digest (s\<lparr>placeId := v\<rparr>))"
| "fire (InitialAddressChanged v) s = Inr (digest (s\<lparr>initialAddress := v\<rparr>))"
| "fire Digest s = Inr (digest s)"
| "fire Focus s = Inr (s\<lparr>focused := True\<rparr>)"
| "fire FocusOut s = Inr (if focused s then runFocusout s else s)"
| "fire (Key which) s = (if focused s then keyHandler which s else Inr s)"
| "fire (FieldText t) s = Inr (s\<lparr>elementVal := t\<rparr>)"
| "fire (ViewValue v) s = Inr (setViewValue v s)"
| "fire (Render v) s = render (setViewValue v s)"
| "fire (WidgetPlace r) s = onWidget (\<lambda>g. g\<lparr>acPlace := r\<rparr>) s"
| "fire PlaceChanged s = placeChanged s"
| "fire (Submit inDigest) s = placeChangedIn inDigest s"
| "fire (PredictionsReply list status) s = listentoresult list status s"
| "fire (DetailsReply r status) s = detailsresult r status s"
| "fire (GeocodeReply results status) s = geocodeCallback results status s"

text \<open>
  A handler that throws ends its own event only: the next event finds the state the
  handler had reached.
\<close>

definition after :: "outcome \<Rightarrow> state" where
  "after r = (case r of Inl (e, s) \<Rightarrow> s | Inr s \<Rightarrow> s)"

fun run :: "event list \<Rightarrow> state \<Rightarrow> state" where
  "run [] s = s"
| "run (ev # evs) s = run evs (after (fire ev s))"

text \<open>The details requests among the outgoing calls.\<close>

fun detailsRequests :: "effect list \<Rightarrow> jsval list" where
  "detailsRequests [] = []"
| "detailsRequests (GetDetails q # es) = q # detailsRequests es"
| "detailsRequests (e # es) = detailsRequests es"

text \<open>
  A scope before \<^verbatim>\<open>link\<close> ran, with the given \<^verbatim>\<open>options\<close> binding, and the state
  that \<^verbatim>\<open>link\<close> leaves for an empty options object.
\<close>

definition unattached :: "jsval \<Rightarrow> state" where
  "unattached v = \<lparr> options = v, details = JUndefined, placeId = JUndefined,
     initialAddress = JUndefined, gPlace = None, watchEnter = False, opts = [],
     viewValue = JUndefined, elementVal = JStr [], focused = False, focusoutHandlers = [],
     registered = [], lastOptions = None, lastPlaceId = None, lastInitialAddress = None,
     effects = [] \<rparr>"

definition attached :: state where
  "attached = \<lparr> options = JObj [], details = JUndefined, placeId = JUndefined,
     initialAddress = JUndefined,
     gPlace = Some (newAutocomplete\<lparr>acFields := defaultPlacesFields\<rparr>),
     watchEnter = False, opts = [], viewValue = JUndefined, elementVal = JStr [],
     focused = False, focusoutHandlers = [],
     registered = [''keydown keypress'', ''place_changed'', ''$render'', ''$watch options'',
       ''$watch placeId'', ''$watch initialAddress'', ''$on ngPlacesAutocomplete:submit''],
     lastOptions = None, lastPlaceId = None, lastInitialAddress = None,
     effects = [] \<rparr>"

text \<open>
  The attached directive after the host has supplied \<^verbatim>\<open>{watchEnter: true}\<close> as options
  and the user has put the focus on the field and typed \<^verbatim>\<open>Paris\<close>.
\<close>

definition watching :: state where
  "watching = \<lparr> options = JObj [(''watchEnter'', JBool True)], details = JUndefined,
     placeId = JUndefined, initialAddress = JUndefined,
     gPlace = Some \<lparr> acTypes = JArr [], acBounds = JNull, acComponentRestrictions = JNull,
                     acFields = JNull, acPlace = JUndefined \<rparr>,
     watchEnter = True, opts = [], viewValue = JUndefined, elementVal = JStr ''Paris'',
     focused = True, focusoutHandlers = [],
     registered = [''keydown keypress'', ''place_changed'', ''$render'', ''$watch options'',
       ''$watch placeId'', ''$watch initialAddress'', ''$on ngPlacesAutocomplete:submit''],
     lastOptions = Some (JObj [(''watchEnter'', JBool True)]),
     lastPlaceId = Some JUndefined, lastInitialAddress = Some JUndefined,
     effects = [] \<rparr>"

text \<open>
  Every details request sent so far asks for the default field list.
\<close>

definition defaultOnly :: "state \<Rightarrow> bool" where
  "defaultOnly s =
     (\<forall>q \<in> set (detailsRequests (effects s)). getProp q ''fields'' = Inr defaultPlacesFields)"

text \<open>
  \<open>keeps s s'\<close>: the two states agree on the three bindings, on what the watchers of place
  id and initial address saw last, and on the trace.
\<close>

definition keeps :: "state \<Rightarrow> state \<Rightarrow> bool" where
  "keeps s s' =
     (options s' = options s \<and> placeId s' = placeId s \<and>
      initialAddress s' = initialAddress s \<and> lastPlaceId s' = lastPlaceId s \<and>
      lastInitialAddress s' = lastInitialAddress s \<and> effects s' = effects s)"

section \<open>Basic facts\<close>

lemma link_empty_options: "link (unattached (JObj [])) = Inr attached"
  by (simp add: link_def unattached_def attached_def thenDo_def onWidget_def objGet_def
      newAutocomplete_def)

lemma run_to_watching:
  "run [OptionsChanged (JObj [(''watchEnter'', JBool True)]), Focus, FieldText (JStr ''Paris'')]
     attached = watching"
  by (simp add: attached_def watching_def digest_def watchOptions_def watchPlace_def
      watchAddress_def dirty_def caught_def initPlace_def initInitialAddress_def
      initOpts_def thenDo_def after_def initWatchEnter_def
      initTypes_def initBounds_def initCountry_def initFields_def onWidget_def objGet_def
      newAutocomplete_def)

text \<open>
  An undefined options value leaves the \<^verbatim>\<open>watchEnter\<close> flag as it was: only the
  binding and the value its watcher saw last change.
\<close>

lemma stale_flag_reachable:
  "run [OptionsChanged JUndefined] watching =
     watching\<lparr>options := JUndefined, lastOptions := Some JUndefined\<rparr>"
  by (simp add: watching_def digest_def watchOptions_def watchPlace_def watchAddress_def
      dirty_def caught_def initOpts_def after_def)

section \<open>Failure statuses\<close>

text \<open>
  C7. When a details call or a geocode call completes with a status other than OK, the
  update is skipped: the details callback changes nothing at all, and the geocode callback
  only prints one warning. The field text, the bound value and \<^verbatim>\<open>scope.details\<close> stay
  as they were, and neither callback throws.
\<close>

theorem nonOK_status_skips_update:
  assumes "status \<noteq> statusOK"
  shows "detailsresult r status s = Inr s \<and>
         (\<exists>s'. geocodeCallback results status s = Inr s' \<and>
               s' = emit (ConsoleWarn (''Geocoder failed due to: '' @ status)) s \<and>
               elementVal s' = elementVal s \<and> viewValue s' = viewValue s \<and>
               details s' = details s)"
  using assms by (simp add: detailsresult_def geocodeCallback_def emit_def)

theorem nonOK_status_skips_update_witness:
  "''ZERO_RESULTS'' \<noteq> statusOK \<and>
   detailsresult (JObj [(''formatted_address'', JStr ''1 Main St'')]) ''ZERO_RESULTS'' attached
     = Inr attached \<and>
   (\<exists>s'. geocodeCallback JNull ''ZERO_RESULTS'' attached = Inr s' \<and>
         s' = emit (ConsoleWarn (''Geocoder failed due to: '' @ ''ZERO_RESULTS'')) attached \<and>
         elementVal s' = elementVal attached \<and> viewValue s' = viewValue attached \<and>
         details s' = details attached)"
  using nonOK_status_skips_update [of "''ZERO_RESULTS''"
      "JObj [(''formatted_address'', JStr ''1 Main St'')]" attached JNull]
  by (simp add: statusOK_def)

section \<open>Initial value\<close>

lemma keeps_trans: "keeps s s' \<Longrightarrow> keeps s' s'' \<Longrightarrow> keeps s s''"
  by (simp add: keeps_def)

lemma initWatchEnter_keeps:
  assumes "truthy (options s)" and "gPlace s = Some g"
  shows "\<exists>s' g'. initWatchEnter s = Inr s' \<and> gPlace s' = Some g' \<and> keeps s s'"
  using assms by (cases "options s") (simp_all add: initWatchEnter_def keeps_def)

lemma initTypes_keeps:
  assumes "truthy (options s)" and "gPlace s = Some g"
  shows "\<exists>s' g'. initTypes s = Inr s' \<and> gPlace s' = Some g' \<and> keeps s s'"
  using assms by (cases "options s") (simp_all add: initTypes_def onWidget_def keeps_def)

lemma initBounds_keeps:
  assumes "truthy (options s)" and "gPlace s = Some g"
  shows "\<exists>s' g'. initBounds s = Inr s' \<and> gPlace s' = Some g' \<and> keeps s s'"
  using assms by (cases "options s") (simp_all add: initBounds_def onWidget_def keeps_def)

lemma initCountry_keeps:
  assumes "truthy (options s)" and "gPlace s = Some g"
  shows "\<exists>s' g'. initCountry s = Inr s' \<and> gPlace s' = Some g' \<and> keeps s s'"
  using assms by (cases "options s") (simp_all add: initCountry_def onWidget_def keeps_def)

lemma initFields_keeps:
  assumes "truthy (options s)" and "gPlace s = Some g"
  shows "\<exists>s' g'. initFields s = Inr s' \<and> gPlace s' = Some g' \<and> keeps s s'"
  using assms by (cases "options s") (simp_all add: initFields_def onWidget_def keeps_def)

lemma initOpts_keeps:
  assumes "gPlace s = Some g"
  shows "\<exists>s' g'. initOpts s = Inr s' \<and> gPlace s' = Some g' \<and> keeps s s'"
proof (cases "truthy (options s)")
  case False
  with assms show ?thesis by (simp add: initOpts_def keeps_def)
next
  case True
  from True assms obtain s1 g1 where
    1: "initWatchEnter s = Inr s1" "gPlace s1 = Some g1" "keeps s s1"
    using initWatchEnter_keeps by blast
  from True 1 have t1: "truthy (options s1)" by (simp add: keeps_def)
  from t1 1(2) obtain s2 g2 where
    2: "initTypes s1 = Inr s2" "gPlace s2 = Some g2" "keeps s1 s2"
    using initTypes_keeps by blast
  from t1 2 have t2: "truthy (options s2)" by (simp add: keeps_def)
  from t2 2(2) obtain s3 g3 where
    3: "initBounds s2 = Inr s3" "gPlace s3 = Some g3" "keeps s2 s3"
    using initBounds_keeps by blast
  from t2 3 have t3: "truthy (options s3)" by (simp add: keeps_def)
  from t3 3(2) obtain s4 g4 where
    4: "initCountry s3 = Inr s4" "gPlace s4 = Some g4" "keeps s3 s4"
    using initCountry_keeps by blast
  from t3 4 have t4: "truthy (options s4)" by (simp add: keeps_def)
  from t4 4(2) obtain s5 g5 where
    5: "initFields s4 = Inr s5" "gPlace s5 = Some g5" "keeps s4 s5"
    using initFields_keeps by blast
  have "initOpts s = Inr s5"
    using True 1(1) 2(1) 3(1) 4(1) 5(1) by (simp add: initOpts_def thenDo_def)
  moreover have "keeps s s5"
    using 1(3) 2(3) 3(3) 4(3) 5(3) by (simp add: keeps_def)
  ultimately show ?thesis using 5(2) by blast
qed

lemma watchOptions_keeps:
  assumes "gPlace s = Some g"
  shows "keeps s (watchOptions s)"
proof (cases "dirty (lastOptions s) (options s)")
  case False
  then show ?thesis by (simp add: watchOptions_def keeps_def)
next
  case True
  from assms obtain s' where
    "initOpts (s\<lparr>lastOptions := Some (options s)\<rparr>) = Inr s'"
    "keeps (s\<lparr>lastOptions := Some (options s)\<rparr>) s'"
    using initOpts_keeps [of "s\<lparr>lastOptions := Some (options s)\<rparr>" g] by auto
  with True show ?thesis by (simp add: watchOptions_def caught_def keeps_def)
qed

lemma watchPlace_dirty:
  assumes "truthy (placeId s)" and "dirty (lastPlaceId s) (placeId s)"
  shows "watchPlace s =
           emit (GetDetails (JObj [(''fields'', defaultPlacesFields), (''placeId'', placeId s)]))
             (s\<lparr>lastPlaceId := Some (placeId s)\<rparr>)"
  using assms by (simp add: watchPlace_def caught_def initPlace_def getPlaceDetails_def)

lemma watchPlace_clean:
  "\<not> dirty (lastPlaceId s) (placeId s) \<Longrightarrow> watchPlace s = s"
  by (simp add: watchPlace_def)

lemma watchAddress_dirty:
  assumes "truthy (placeId s)" and "dirty (lastInitialAddress s) (initialAddress s)"
  shows "watchAddress s =
           emit (ConsoleWarn ''Using PlaceId to configure the Autocomplete component.'')
             (s\<lparr>lastInitialAddress := Some (initialAddress s)\<rparr>)"
  using assms by (simp add: watchAddress_def caught_def initInitialAddress_def)

lemma watchAddress_clean:
  "\<not> dirty (lastInitialAddress s) (initialAddress s) \<Longrightarrow> watchAddress s = s"
  by (simp add: watchAddress_def)

lemma digest_both:
  assumes "truthy (placeId s)" and "gPlace s = Some g"
    and "dirty (lastPlaceId s) (placeId s)"
    and "dirty (lastInitialAddress s) (initialAddress s)"
  shows "effects (digest s) = effects s @
           [GetDetails (JObj [(''fields'', defaultPlacesFields), (''placeId'', placeId s)]),
            ConsoleWarn ''Using PlaceId to configure the Autocomplete component.'']"
proof -
  let ?s1 = "watchOptions s"
  have k: "keeps s ?s1" using assms(2) by (rule watchOptions_keeps)
  from k assms have p: "truthy (placeId ?s1)" "dirty (lastPlaceId ?s1) (placeId ?s1)"
    by (simp_all add: keeps_def)
  let ?s2 = "watchPlace ?s1"
  have 2: "?s2 = emit (GetDetails (JObj [(''fields'', defaultPlacesFields),
                                         (''placeId'', placeId ?s1)]))
                   (?s1\<lparr>lastPlaceId := Some (placeId ?s1)\<rparr>)"
    using p by (rule watchPlace_dirty)
  from 2 k assms have a: "truthy (placeId ?s2)"
      "dirty (lastInitialAddress ?s2) (initialAddress ?s2)"
    by (simp_all add: keeps_def emit_def)
  have 3: "watchAddress ?s2 =
      emit (ConsoleWarn ''Using PlaceId to configure the Autocomplete component.'')
        (?s2\<lparr>lastInitialAddress := Some (initialAddress ?s2)\<rparr>)"
    using a by (rule watchAddress_dirty)
  have "effects (watchAddress ?s2) = effects ?s2 @
      [ConsoleWarn ''Using PlaceId to configure the Autocomplete component.'']"
    by (subst 3) (simp add: emit_def)
  moreover have "effects ?s2 = effects s @
      [GetDetails (JObj [(''fields'', defaultPlacesFields), (''placeId'', placeId s)])]"
    using k by (subst 2) (simp add: emit_def keeps_def)
  ultimately show ?thesis by (simp add: digest_def)
qed

lemma digest_place_only:
  assumes "truthy (placeId s)" and "gPlace s = Some g"
    and "dirty (lastPlaceId s) (placeId s)"
    and "\<not> dirty (lastInitialAddress s) (initialAddress s)"
  shows "effects (digest s) = effects s @
           [GetDetails (JObj [(''fields'', defaultPlacesFields), (''placeId'', placeId s)])]"
proof -
  let ?s1 = "watchOptions s"
  have k: "keeps s ?s1" using assms(2) by (rule watchOptions_keeps)
  from k assms have p: "truthy (placeId ?s1)" "dirty (lastPlaceId ?s1) (placeId ?s1)"
    by (simp_all add: keeps_def)
  let ?s2 = "watchPlace ?s1"
  have 2: "?s2 = emit (GetDetails (JObj [(''fields'', defaultPlacesFields),
                                         (''placeId'', placeId ?s1)]))
                   (?s1\<lparr>lastPlaceId := Some (placeId ?s1)\<rparr>)"
    using p by (rule watchPlace_dirty)
  from 2 k assms have a: "\<not> dirty (lastInitialAddress ?s2) (initialAddress ?s2)"
    by (simp add: keeps_def emit_def)
  have "watchAddress ?s2 = ?s2" using a by (rule watchAddress_clean)
  moreover have "effects ?s2 = effects s @
      [GetDetails (JObj [(''fields'', defaultPlacesFields), (''placeId'', placeId s)])]"
    using k by (subst 2) (simp add: emit_def keeps_def)
  ultimately show ?thesis by (simp add: digest_def)
qed

lemma digest_address_only:
  assumes "truthy (placeId s)" and "gPlace s = Some g"
    and "\<not> dirty (lastPlaceId s) (placeId s)"
    and "dirty (lastInitialAddress s) (initialAddress s)"
  shows "effects (digest s) = effects s @
           [ConsoleWarn ''Using PlaceId to configure the Autocomplete component.'']"
proof -
  let ?s1 = "watchOptions s"
  have k: "keeps s ?s1" using assms(2) by (rule watchOptions_keeps)
  from k assms have p: "\<not> dirty (lastPlaceId ?s1) (placeId ?s1)"
    by (simp add: keeps_def)
  have 2: "watchPlace ?s1 = ?s1" using p by (rule watchPlace_clean)
  from k assms have a: "truthy (placeId ?s1)"
      "dirty (lastInitialAddress ?s1) (initialAddress ?s1)"
    by (simp_all add: keeps_def)
  have 3: "watchAddress ?s1 =
      emit (ConsoleWarn ''Using PlaceId to configure the Autocomplete component.'')
        (?s1\<lparr>lastInitialAddress := Some (initialAddress ?s1)\<rparr>)"
    using a by (rule watchAddress_dirty)
  have "effects (watchAddress ?s1) = effects s @
      [ConsoleWarn ''Using PlaceId to configure the Autocomplete component.'']"
    using k by (subst 3) (simp add: emit_def keeps_def)
  with 2 show ?thesis by (simp add: digest_def)
qed

text \<open>
  C5 (as amended). In an attached directive, let a digest find the watcher of the place id
  dirty while a truthy place id is bound. If it finds the watcher of the initial address
  dirty too (at the first digest, or when the host has changed both bindings in one turn),
  the component sends one details request, whose only key besides the field list is that
  place id, and prints one warning; no geocode request is made. If the address is the one
  its watcher saw last, only the details request is sent: no warning is printed. When
  later the address alone changes while the place id stays bound, the component prints the
  warning and makes no geocode request.
\<close>

theorem placeId_precedence:
  assumes "truthy p"
    and "gPlace s = Some g" and "dirty (lastPlaceId s) p" and "dirty (lastInitialAddress s) a"
    and "gPlace u = Some h" and "dirty (lastPlaceId u) p"
    and "\<not> dirty (lastInitialAddress u) b"
    and "gPlace w = Some k" and "placeId w = p" and "\<not> dirty (lastPlaceId w) p"
    and "dirty (lastInitialAddress w) c"
  shows "effects (supplyPlace p a s) = effects s @
           [GetDetails (JObj [(''fields'', defaultPlacesFields), (''placeId'', p)]),
            ConsoleWarn ''Using PlaceId to configure the Autocomplete component.''] \<and>
         effects (supplyPlace p b u) = effects u @
           [GetDetails (JObj [(''fields'', defaultPlacesFields), (''placeId'', p)])] \<and>
         effects (after (fire (InitialAddressChanged c) w)) = effects w @
           [ConsoleWarn ''Using PlaceId to configure the Autocomplete component.'']"
proof (intro conjI)
  show "effects (supplyPlace p a s) = effects s @
           [GetDetails (JObj [(''fields'', defaultPlacesFields), (''placeId'', p)]),
            ConsoleWarn ''Using PlaceId to configure the Autocomplete component.'']"
    using assms(1-4) digest_both [of "s\<lparr>placeId := p, initialAddress := a\<rparr>" g]
    by (simp add: supplyPlace_def)
  show "effects (supplyPlace p b u) = effects u @
           [GetDetails (JObj [(''fields'', defaultPlacesFields), (''placeId'', p)])]"
    using assms(1,5-7) digest_place_only [of "u\<lparr>placeId := p, initialAddress := b\<rparr>" h]
    by (simp add: supplyPlace_def)
  show "effects (after (fire (InitialAddressChanged c) w)) = effects w @
           [ConsoleWarn ''Using PlaceId to configure the Autocomplete component.'']"
    using assms(1,8-11) digest_address_only [of "w\<lparr>initialAddress := c\<rparr>" k]
    by (simp add: after_def)
qed

theorem placeId_precedence_witness:
  "effects (supplyPlace (JStr ''abc123'')
      (JObj [(''lat'', JNum 40.7128), (''lng'', JNum (-74.0059))]) attached) =
     [GetDetails (JObj [(''fields'', defaultPlacesFields), (''placeId'', JStr ''abc123'')]),
      ConsoleWarn ''Using PlaceId to configure the Autocomplete component.''] \<and>
   effects (supplyPlace (JStr ''abc123'')
      (JObj [(''lat'', JNum 40.7128), (''lng'', JNum (-74.0059))])
      (run [Digest,
            InitialAddressChanged (JObj [(''lat'', JNum 40.7128), (''lng'', JNum (-74.0059))])]
         attached)) =
     [Geocode (JObj [(''location'',
        JObj [(''lat'', JNum 40.7128), (''lng'', JNum (-74.0059))])]),
      GetDetails (JObj [(''fields'', defaultPlacesFields), (''placeId'', JStr ''abc123'')])] \<and>
   effects (after (fire
      (InitialAddressChanged (JObj [(''lat'', JNum 40.7128), (''lng'', JNum (-74.0059))]))
      (run [Digest, PlaceIdChanged (JStr ''abc123'')] attached))) =
     [GetDetails (JObj [(''fields'', defaultPlacesFields), (''placeId'', JStr ''abc123'')]),
      ConsoleWarn ''Using PlaceId to configure the Autocomplete component.'']"
proof -
  let ?p = "JStr ''abc123''"
  let ?a = "JObj [(''lat'', JNum 40.7128), (''lng'', JNum (-74.0059))]"
  let ?u = "run [Digest, InitialAddressChanged ?a] attached"
  let ?w = "run [Digest, PlaceIdChanged ?p] attached"
  note defs = attached_def digest_def watchOptions_def watchPlace_def watchAddress_def
    dirty_def caught_def initOpts_def thenDo_def after_def initWatchEnter_def initTypes_def
    initBounds_def initCountry_def initFields_def onWidget_def objGet_def initPlace_def
    initInitialAddress_def truthyProp_def getPlaceDetails_def emit_def newAutocomplete_def
  have p: "truthy ?p" by simp
  have s1: "gPlace attached = Some (newAutocomplete\<lparr>acFields := defaultPlacesFields\<rparr>)"
    and s2: "dirty (lastPlaceId attached) ?p"
    and s3: "dirty (lastInitialAddress attached) ?a"
    by (simp_all add: attached_def dirty_def)
  have u1: "gPlace ?u = Some \<lparr> acTypes = JArr [], acBounds = JNull,
                acComponentRestrictions = JNull, acFields = JNull, acPlace = JUndefined \<rparr>"
    and u2: "dirty (lastPlaceId ?u) ?p"
    and u3: "\<not> dirty (lastInitialAddress ?u) ?a"
    and ue: "effects ?u = [Geocode (JObj [(''location'', ?a)])]"
    by (simp_all add: defs)
  have w1: "gPlace ?w = Some \<lparr> acTypes = JArr [], acBounds = JNull,
                acComponentRestrictions = JNull, acFields = JNull, acPlace = JUndefined \<rparr>"
    and w2: "placeId ?w = ?p"
    and w3: "\<not> dirty (lastPlaceId ?w) ?p"
    and w4: "dirty (lastInitialAddress ?w) ?a"
    and we: "effects ?w = [GetDetails (JObj [(''fields'', defaultPlacesFields),
                                              (''placeId'', ?p)])]"
    by (simp_all add: defs)
  have e: "effects attached = []" by (simp add: attached_def)
  from placeId_precedence [OF p s1 s2 s3 u1 u2 u3 w1 w2 w3 w4]
  have c1: "effects (supplyPlace ?p ?a attached) = effects attached @
           [GetDetails (JObj [(''fields'', defaultPlacesFields), (''placeId'', ?p)]),
            ConsoleWarn ''Using PlaceId to configure the Autocomplete component.'']"
    and c2: "effects (supplyPlace ?p ?a ?u) = effects ?u @
           [GetDetails (JObj [(''fields'', defaultPlacesFields), (''placeId'', ?p)])]"
    and c3: "effects (after (fire (InitialAddressChanged ?a) ?w)) = effects ?w @
           [ConsoleWarn ''Using PlaceId to configure the Autocomplete component.'']"
    by blast+
  show ?thesis
    unfolding c1 c2 c3 ue we e by simp
qed

text \<open>
  The address bound first and the place id afterwards: both are supplied, a geocode
  request has been made, and no warning is printed.
\<close>

theorem address_first_counterexample:
  "effects (run [Digest,
                 InitialAddressChanged (JObj [(''lat'', JNum 40.7128), (''lng'', JNum (-74.0059))]),
                 PlaceIdChanged (JStr ''abc123'')] attached) =
     [Geocode (JObj [(''location'',
        JObj [(''lat'', JNum 40.7128), (''lng'', JNum (-74.0059))])]),
      GetDetails (JObj [(''fields'', defaultPlacesFields), (''placeId'', JStr ''abc123'')])]"
  by (simp add: attached_def digest_def watchOptions_def watchPlace_def watchAddress_def
    dirty_def caught_def initOpts_def thenDo_def after_def initWatchEnter_def initTypes_def
    initBounds_def initCountry_def initFields_def onWidget_def objGet_def initPlace_def
    initInitialAddress_def truthyProp_def getPlaceDetails_def emit_def newAutocomplete_def)

text \<open>
  Without a place id and with two truthy coordinates, one geocode request is made. A reply
  with status OK populates the bound value, the field and the details from the first
  result; a reply with status OK and no result prints a warning.
\<close>

lemma initInitialAddress_truthy:
  assumes "\<not> truthy (placeId s)" and "initialAddress s = JObj a"
    and "truthy (objGet a ''lat'')" and "truthy (objGet a ''lng'')"
  shows "initInitialAddress s = Inr (emit (Geocode (JObj [(''location'', JObj a)])) s)"
  using assms by (simp add: initInitialAddress_def truthyProp_def)

lemma geocodeCallback_first_result:
  assumes "truthy r" and "getProp r ''formatted_address'' = Inr (JStr a)"
  shows "geocodeCallback (JArr (r # rs)) statusOK s =
           Inr (s\<lparr>viewValue := JStr a, elementVal := JStr a, details := r,
                  focusoutHandlers := focusoutHandlers s @ [JStr a]\<rparr>)"
  using assms
  by (simp add: geocodeCallback_def applyResolved_def setViewValue_def elementValSet_def)

lemma geocodeCallback_empty:
  "geocodeCallback (JArr []) statusOK s = Inr (emit (ConsoleWarn ''No results found'') s)"
  by (simp add: geocodeCallback_def)

text \<open>
  C6. The guard of \<^verbatim>\<open>initInitialAddress\<close> tests the coordinates for truthiness, and the
  number 0 is falsy: for a point on the equator, with no place id, no geocode request is
  made and nothing else happens.
\<close>

theorem zero_coordinate_no_geocode:
  "initInitialAddress
     (attached\<lparr>initialAddress := JObj [(''lat'', JNum 0), (''lng'', JNum 74.0059)]\<rparr>)
   = Inr (attached\<lparr>initialAddress := JObj [(''lat'', JNum 0), (''lng'', JNum 74.0059)]\<rparr>)"
  by (simp add: initInitialAddress_def attached_def truthyProp_def objGet_def)

section \<open>Selection from the dropdown\<close>

text \<open>
  C1 (as amended). When the user picks a dropdown entry whose place has address
  components, the listener stores the whole place in \<^verbatim>\<open>scope.details\<close> and writes to
  the bound value the text that the field displays, whatever that text is: afterwards the
  bound value equals the displayed text and the details equal the place. The listener never
  reads \<^verbatim>\<open>formatted_address\<close>: the bound value is the formatted address of the place
  when the text of the entry is. The listener sends nothing.
\<close>

theorem selection_stores_details:
  assumes "gPlace s = Some g" and "truthyProp r ''address_components''"
  shows "\<exists>s'. selectSuggestion t r s = Inr s' \<and> details s' = r \<and> viewValue s' = t \<and>
              elementVal s' = t \<and> effects s' = effects s \<and>
              (getProp r ''formatted_address'' = Inr t \<longrightarrow>
                 getProp r ''formatted_address'' = Inr (viewValue s'))"
  using assms
  by (simp add: selectSuggestion_def thenDo_def onWidget_def placeChanged_def placeChangedIn_def setViewValue_def)

theorem selection_stores_details_witness:
  "gPlace attached = Some (newAutocomplete\<lparr>acFields := defaultPlacesFields\<rparr>) \<and>
   truthyProp (JObj [(''address_components'', JArr [JObj [(''long_name'', JStr ''Paris'')]]),
                     (''formatted_address'', JStr ''Paris, France'')]) ''address_components'' \<and>
   (\<exists>s'. selectSuggestion (JStr ''Paris, France'')
            (JObj [(''address_components'', JArr [JObj [(''long_name'', JStr ''Paris'')]]),
                   (''formatted_address'', JStr ''Paris, France'')]) attached = Inr s' \<and>
         details s' = JObj [(''address_components'', JArr [JObj [(''long_name'', JStr ''Paris'')]]),
                            (''formatted_address'', JStr ''Paris, France'')] \<and>
         viewValue s' = JStr ''Paris, France'' \<and> elementVal s' = JStr ''Paris, France'' \<and>
         effects s' = effects attached \<and>
         getProp (JObj [(''address_components'', JArr [JObj [(''long_name'', JStr ''Paris'')]]),
                        (''formatted_address'', JStr ''Paris, France'')]) ''formatted_address''
           = Inr (viewValue s'))"
proof -
  have g: "gPlace attached = Some (newAutocomplete\<lparr>acFields := defaultPlacesFields\<rparr>)"
    by (simp add: attached_def)
  have a: "truthyProp (JObj [(''address_components'', JArr [JObj [(''long_name'', JStr ''Paris'')]]),
                     (''formatted_address'', JStr ''Paris, France'')]) ''address_components''"
    by (simp add: truthyProp_def objGet_def)
  from g a selection_stores_details [OF g a, of "JStr ''Paris, France''"] show ?thesis
    by (auto simp add: objGet_def)
qed

text \<open>
  The text of a dropdown entry need not be the formatted address of its place. The bound
  value then is the text of the entry, not the formatted address.
\<close>

theorem selection_text_counterexample:
  "truthyProp (JObj [(''address_components'', JArr [JObj [(''long_name'', JStr ''Paris'')]]),
                     (''formatted_address'', JStr ''5 Avenue Anatole France, Paris'')])
     ''address_components'' \<and>
   getProp (JObj [(''address_components'', JArr [JObj [(''long_name'', JStr ''Paris'')]]),
                  (''formatted_address'', JStr ''5 Avenue Anatole France, Paris'')])
     ''formatted_address'' = Inr (JStr ''5 Avenue Anatole France, Paris'') \<and>
   viewValue (after (selectSuggestion (JStr ''Eiffel Tower, Paris'')
      (JObj [(''address_components'', JArr [JObj [(''long_name'', JStr ''Paris'')]]),
             (''formatted_address'', JStr ''5 Avenue Anatole France, Paris'')]) attached))
     = JStr ''Eiffel Tower, Paris'' \<and>
   viewValue (after (selectSuggestion (JStr ''Eiffel Tower, Paris'')
      (JObj [(''address_components'', JArr [JObj [(''long_name'', JStr ''Paris'')]]),
             (''formatted_address'', JStr ''5 Avenue Anatole France, Paris'')]) attached))
     \<noteq> JStr ''5 Avenue Anatole France, Paris''"
  by (simp add: truthyProp_def objGet_def selectSuggestion_def thenDo_def onWidget_def
      placeChanged_def placeChangedIn_def setViewValue_def attached_def after_def Let_def)

section \<open>Enter\<close>

text \<open>
  C8. With the \<^verbatim>\<open>watchEnter\<close> flag off, a press of Enter sends no request of any kind
  (the trace of outgoing calls is unchanged), whatever place the widget reports, and the
  bound value becomes the text of the field, which the press does not change.
\<close>

theorem plain_enter:
  assumes "\<not> watchEnter s" and "gPlace s = Some g"
  shows "\<exists>s'. enterPress r s = Inr s' \<and> effects s' = effects s \<and>
              viewValue s' = elementVal s \<and> elementVal s' = elementVal s"
  using assms
  by (simp add: enterPress_def keyHandler_def setViewValue_def thenDo_def onWidget_def
      placeChanged_def placeChangedIn_def)

theorem plain_enter_witness:
  "\<not> watchEnter (attached\<lparr>elementVal := JStr ''Paris''\<rparr>) \<and>
   (\<exists>s'. enterPress (JObj [(''name'', JStr ''Paris'')]) (attached\<lparr>elementVal := JStr ''Paris''\<rparr>)
           = Inr s' \<and>
         effects s' = effects (attached\<lparr>elementVal := JStr ''Paris''\<rparr>) \<and>
         viewValue s' = JStr ''Paris'' \<and> elementVal s' = JStr ''Paris'')"
proof -
  have w: "\<not> watchEnter (attached\<lparr>elementVal := JStr ''Paris''\<rparr>)"
    by (simp add: attached_def)
  have g: "gPlace (attached\<lparr>elementVal := JStr ''Paris''\<rparr>)
             = Some (newAutocomplete\<lparr>acFields := defaultPlacesFields\<rparr>)"
    by (simp add: attached_def)
  from w plain_enter [OF w g, of "JObj [(''name'', JStr ''Paris'')]"] show ?thesis
    by simp
qed

lemma fold_elementValSet_keeps:
  "effects (fold elementValSet as s) = effects s"
  "placeId (fold elementValSet as s) = placeId s"
  by (induction as arbitrary: s) (simp_all add: elementValSet_def)

lemma runFocusout_keeps:
  "effects (runFocusout s) = effects s"
  "placeId (runFocusout s) = placeId s"
  by (simp_all add: runFocusout_def fold_elementValSet_keeps)

lemma enterPress_query:
  assumes "options s = JObj kv" and "watchEnter s" and "gPlace s = Some g"
    and "\<not> truthyProp r ''address_components''"
    and "elementVal s = JStr t" and "t \<noteq> []"
  shows "enterPress r s =
           Inr (runFocusout (s\<lparr>focused := True, viewValue := JStr t,
                  gPlace := Some (g\<lparr>acPlace := r\<rparr>),
                  effects := effects s @
                    [GetPlacePredictions (JObj [(''input'', JStr t),
                       (''offset'', JNum (of_nat (length t))),
                       (''componentRestrictions'', objGet (opts s) ''componentRestrictions''),
                       (''types'', if truthy (objGet kv ''types'') then objGet kv ''types''
                                   else JArr [])]),
                     Blur]\<rparr>))"
  using assms
  by (simp add: enterPress_def keyHandler_def setViewValue_def thenDo_def onWidget_def
      placeChanged_def placeChangedIn_def getPlace_def objGet_def emit_def blur_def Let_def
      runFocusout_def)

lemma listentoresult_first_prediction:
  "listentoresult (JArr (JObj p # ps)) status s =
     Inr (emit (GetDetails (setProp
            (if truthy (placeId s)
             then JObj [(''fields'', defaultPlacesFields), (''placeId'', placeId s)]
             else JObj [(''fields'', defaultPlacesFields)])
            ''reference'' (objGet p ''reference''))) s)"
  by (simp add: listentoresult_def getPlaceDetails_def)

lemma detailsresult_ok:
  assumes "getProp d ''formatted_address'' = Inr (JStr a)"
  shows "detailsresult d statusOK s =
           Inr (s\<lparr>viewValue := JStr a, elementVal := JStr a, details := d,
                  focusoutHandlers := focusoutHandlers s @ [JStr a]\<rparr>)"
  using assms
  by (simp add: detailsresult_def applyResolved_def setViewValue_def elementValSet_def)

text \<open>
  C2 (as amended). Let the options be an object with \<^verbatim>\<open>watchEnter: true\<close>, already seen
  by the watcher, the field hold a non-empty text, and the widget report a place without
  address components. A press of Enter then sends one prediction query whose input is the
  text of the field. When the reply is a list that starts with a prediction object, one
  details request follows whose \<^verbatim>\<open>reference\<close> is that of the first prediction; if no
  place id is bound, the field list and this reference are all the request holds. When the
  details reply has status OK and a formatted address, that address is written to the field
  and to the bound value, and the whole result is stored as details.
\<close>

theorem enter_resolves_first_prediction:
  assumes "options s = JObj kv" and "objGet kv ''watchEnter'' = JBool True"
    and "watchEnter s" and "gPlace s = Some g"
    and "\<not> truthyProp r ''address_components''"
    and "elementVal s = JStr t" and "t \<noteq> []"
    and "getProp d ''formatted_address'' = Inr (JStr a)"
  shows "\<exists>s1 s2 s3 q.
           enterPress r s = Inr s1 \<and>
           effects s1 = effects s @
             [GetPlacePredictions (JObj [(''input'', JStr t),
                (''offset'', JNum (of_nat (length t))),
                (''componentRestrictions'', objGet (opts s) ''componentRestrictions''),
                (''types'', if truthy (objGet kv ''types'') then objGet kv ''types''
                            else JArr [])]),
              Blur] \<and>
           listentoresult (JArr (JObj p # ps)) status s1 = Inr s2 \<and>
           effects s2 = effects s1 @ [GetDetails q] \<and>
           getProp q ''reference'' = Inr (objGet p ''reference'') \<and>
           (\<not> truthy (placeId s) \<longrightarrow>
              q = JObj [(''fields'', defaultPlacesFields),
                        (''reference'', objGet p ''reference'')]) \<and>
           detailsresult d statusOK s2 = Inr s3 \<and>
           elementVal s3 = JStr a \<and> viewValue s3 = JStr a \<and> details s3 = d"
proof -
  let ?query = "GetPlacePredictions (JObj [(''input'', JStr t),
                  (''offset'', JNum (of_nat (length t))),
                  (''componentRestrictions'', objGet (opts s) ''componentRestrictions''),
                  (''types'', if truthy (objGet kv ''types'') then objGet kv ''types''
                              else JArr [])])"
  let ?s1 = "runFocusout (s\<lparr>focused := True, viewValue := JStr t,
               gPlace := Some (g\<lparr>acPlace := r\<rparr>), effects := effects s @ [?query, Blur]\<rparr>)"
  let ?q = "setProp
            (if truthy (placeId s)
             then JObj [(''fields'', defaultPlacesFields), (''placeId'', placeId s)]
             else JObj [(''fields'', defaultPlacesFields)])
            ''reference'' (objGet p ''reference'')"
  let ?s2 = "emit (GetDetails ?q) ?s1"
  let ?s3 = "?s2\<lparr>viewValue := JStr a, elementVal := JStr a, details := d,
                 focusoutHandlers := focusoutHandlers ?s2 @ [JStr a]\<rparr>"
  have press: "enterPress r s = Inr ?s1"
    using assms(1,3-7) by (rule enterPress_query)
  have sent: "effects ?s1 = effects s @ [?query, Blur]"
    by (simp add: runFocusout_keeps)
  have bound: "placeId ?s1 = placeId s"
    by (simp add: runFocusout_keeps)
  have reply: "listentoresult (JArr (JObj p # ps)) status ?s1 = Inr ?s2"
    using listentoresult_first_prediction [of p ps status ?s1] bound by simp
  have more: "effects ?s2 = effects ?s1 @ [GetDetails ?q]"
    by (simp add: emit_def)
  have key: "getProp ?q ''reference'' = Inr (objGet p ''reference'')"
    by (simp add: objGet_def)
  have only: "\<not> truthy (placeId s) \<longrightarrow>
      ?q = JObj [(''fields'', defaultPlacesFields), (''reference'', objGet p ''reference'')]"
    by simp
  have resolved: "detailsresult d statusOK ?s2 = Inr ?s3"
    using assms(8) by (rule detailsresult_ok)
  have shown: "elementVal ?s3 = JStr a \<and> viewValue ?s3 = JStr a \<and> details ?s3 = d"
    by simp
  from press sent reply more key only resolved shown show ?thesis
    by blast
qed

theorem enter_resolves_first_prediction_witness:
  "\<exists>s1 s2 s3 q.
     enterPress (JObj [(''name'', JStr ''Paris'')]) watching = Inr s1 \<and>
     effects s1 = [GetPlacePredictions (JObj [(''input'', JStr ''Paris''), (''offset'', JNum 5),
                     (''componentRestrictions'', JUndefined), (''types'', JArr [])]), Blur] \<and>
     listentoresult (JArr [JObj [(''reference'', JStr ''ref1'')]]) ''OK'' s1 = Inr s2 \<and>
     effects s2 = effects s1 @ [GetDetails q] \<and>
     q = JObj [(''fields'', defaultPlacesFields), (''reference'', JStr ''ref1'')] \<and>
     detailsresult (JObj [(''formatted_address'', JStr ''Paris, France'')]) statusOK s2 = Inr s3 \<and>
     elementVal s3 = JStr ''Paris, France'' \<and> viewValue s3 = JStr ''Paris, France'' \<and>
     details s3 = JObj [(''formatted_address'', JStr ''Paris, France'')]"
proof -
  have h1: "options watching = JObj [(''watchEnter'', JBool True)]"
    and h2: "objGet [(''watchEnter'', JBool True)] ''watchEnter'' = JBool True"
    and h3: "watchEnter watching"
    and h4: "gPlace watching = Some \<lparr> acTypes = JArr [], acBounds = JNull,
               acComponentRestrictions = JNull, acFields = JNull, acPlace = JUndefined \<rparr>"
    and h5: "\<not> truthyProp (JObj [(''name'', JStr ''Paris'')]) ''address_components''"
    and h6: "elementVal watching = JStr ''Paris''"
    and h7: "''Paris'' \<noteq> []"
    and h8: "getProp (JObj [(''formatted_address'', JStr ''Paris, France'')])
               ''formatted_address'' = Inr (JStr ''Paris, France'')"
    by (simp_all add: watching_def objGet_def truthyProp_def)
  from enter_resolves_first_prediction [OF h1 h2 h3 h4 h5 h6 h7 h8,
      of "[(''reference'', JStr ''ref1'')]" "[]" "''OK''"]
  obtain s1 s2 s3 q where
    "enterPress (JObj [(''name'', JStr ''Paris'')]) watching = Inr s1"
    "effects s1 = effects watching @
       [GetPlacePredictions (JObj [(''input'', JStr ''Paris''),
          (''offset'', JNum (of_nat (length ''Paris''))),
          (''componentRestrictions'', objGet (opts watching) ''componentRestrictions''),
          (''types'', if truthy (objGet [(''watchEnter'', JBool True)] ''types'')
                      then objGet [(''watchEnter'', JBool True)] ''types'' else JArr [])]),
        Blur]"
    "listentoresult (JArr [JObj [(''reference'', JStr ''ref1'')]]) ''OK'' s1 = Inr s2"
    "effects s2 = effects s1 @ [GetDetails q]"
    "\<not> truthy (placeId watching) \<longrightarrow>
       q = JObj [(''fields'', defaultPlacesFields),
                 (''reference'', objGet [(''reference'', JStr ''ref1'')] ''reference'')]"
    "detailsresult (JObj [(''formatted_address'', JStr ''Paris, France'')]) statusOK s2 = Inr s3"
    "elementVal s3 = JStr ''Paris, France''" "viewValue s3 = JStr ''Paris, France''"
    "details s3 = JObj [(''formatted_address'', JStr ''Paris, France'')]"
    by blast
  then show ?thesis
    by (simp add: watching_def objGet_def)
qed

text \<open>
  With an empty field the press sends no prediction query; the only outgoing call is the
  blur. With a place id bound, the details request that follows the first prediction
  carries that place id next to the reference.
\<close>

theorem enter_query_counterexample:
  "effects (after (enterPress (JObj [(''name'', JStr [])]) (watching\<lparr>elementVal := JStr []\<rparr>)))
     = [Blur] \<and>
   effects (after (listentoresult (JArr [JObj [(''reference'', JStr ''ref1'')]]) ''OK''
      (after (enterPress (JObj [(''name'', JStr ''Paris'')])
                (watching\<lparr>placeId := JStr ''abc123''\<rparr>)))))
     = [GetPlacePredictions (JObj [(''input'', JStr ''Paris''), (''offset'', JNum 5),
          (''componentRestrictions'', JUndefined), (''types'', JArr [])]),
        Blur,
        GetDetails (JObj [(''fields'', defaultPlacesFields), (''placeId'', JStr ''abc123''),
          (''reference'', JStr ''ref1'')])]"
  by (simp add: watching_def enterPress_def keyHandler_def setViewValue_def thenDo_def
      onWidget_def placeChanged_def placeChangedIn_def getPlace_def objGet_def emit_def after_def Let_def
      truthyProp_def listentoresult_def getPlaceDetails_def blur_def runFocusout_def)





section \<open>Options\<close>

lemma initWatchEnter_object:
  assumes "options s = JObj kv"
  shows "initWatchEnter s = Inr (s\<lparr>watchEnter := (objGet kv ''watchEnter'' = JBool True)\<rparr>)"
  using assms by (simp add: initWatchEnter_def)

lemma initTypes_object:
  assumes "options s = JObj kv" and "gPlace s = Some g"
  shows "\<exists>s'. initTypes s = Inr s' \<and> options s' = JObj kv \<and> watchEnter s' = watchEnter s \<and>
          gPlace s' = Some (g\<lparr>acTypes := if truthy (objGet kv ''types'')
                                            then objGet kv ''types'' else JArr []\<rparr>)"
  using assms by (simp add: initTypes_def onWidget_def)

lemma initBounds_object:
  assumes "options s = JObj kv" and "gPlace s = Some g"
  shows "\<exists>s'. initBounds s = Inr s' \<and> options s' = JObj kv \<and> watchEnter s' = watchEnter s \<and>
          gPlace s' = Some (g\<lparr>acBounds := if truthy (objGet kv ''bounds'')
                                             then objGet kv ''bounds'' else JNull\<rparr>)"
  using assms by (simp add: initBounds_def onWidget_def)

lemma initCountry_object:
  assumes "options s = JObj kv" and "gPlace s = Some g"
  shows "\<exists>s'. initCountry s = Inr s' \<and> options s' = JObj kv \<and> watchEnter s' = watchEnter s \<and>
          gPlace s' = Some (g\<lparr>acComponentRestrictions := if truthy (objGet kv ''country'')
                              then JObj [(''country'', objGet kv ''country'')] else JNull\<rparr>)"
  using assms by (simp add: initCountry_def onWidget_def)

lemma initFields_object:
  assumes "options s = JObj kv" and "gPlace s = Some g"
  shows "\<exists>s'. initFields s = Inr s' \<and> options s' = JObj kv \<and> watchEnter s' = watchEnter s \<and>
          gPlace s' = Some (g\<lparr>acFields := if truthy (objGet kv ''fields'')
                                             then objGet kv ''fields'' else JNull\<rparr>)"
  using assms by (simp add: initFields_def onWidget_def)

lemma initOpts_object:
  assumes "options s = JObj kv" and "gPlace s = Some g"
  shows "\<exists>s'. initOpts s = Inr s' \<and> options s' = JObj kv \<and>
          watchEnter s' = (objGet kv ''watchEnter'' = JBool True) \<and>
          gPlace s' = Some (g\<lparr>
            acTypes := if truthy (objGet kv ''types'') then objGet kv ''types'' else JArr [],
            acBounds := if truthy (objGet kv ''bounds'') then objGet kv ''bounds'' else JNull,
            acComponentRestrictions := if truthy (objGet kv ''country'')
              then JObj [(''country'', objGet kv ''country'')] else JNull,
            acFields := if truthy (objGet kv ''fields'') then objGet kv ''fields'' else JNull\<rparr>)"
proof -
  let ?s0 = "s\<lparr>watchEnter := (objGet kv ''watchEnter'' = JBool True)\<rparr>"
  have w: "initWatchEnter s = Inr ?s0"
    using assms(1) by (rule initWatchEnter_object)
  from assms obtain s1 where t: "initTypes ?s0 = Inr s1" "options s1 = JObj kv"
      "watchEnter s1 = watchEnter ?s0"
      "gPlace s1 = Some (g\<lparr>acTypes := if truthy (objGet kv ''types'')
                                         then objGet kv ''types'' else JArr []\<rparr>)"
    using initTypes_object [of ?s0 kv g] by auto
  from t(2,4) obtain s2 where b: "initBounds s1 = Inr s2" "options s2 = JObj kv"
      "watchEnter s2 = watchEnter s1"
      "gPlace s2 = Some (g\<lparr>acTypes := if truthy (objGet kv ''types'')
                                         then objGet kv ''types'' else JArr [],
                            acBounds := if truthy (objGet kv ''bounds'')
                                          then objGet kv ''bounds'' else JNull\<rparr>)"
    using initBounds_object [of s1 kv] by auto
  from b(2,4) obtain s3 where c: "initCountry s2 = Inr s3" "options s3 = JObj kv"
      "watchEnter s3 = watchEnter s2"
      "gPlace s3 = Some (g\<lparr>acTypes := if truthy (objGet kv ''types'')
                                         then objGet kv ''types'' else JArr [],
                            acBounds := if truthy (objGet kv ''bounds'')
                                          then objGet kv ''bounds'' else JNull,
                            acComponentRestrictions := if truthy (objGet kv ''country'')
                              then JObj [(''country'', objGet kv ''country'')] else JNull\<rparr>)"
    using initCountry_object [of s2 kv] by auto
  from c(2,4) obtain s4 where f: "initFields s3 = Inr s4" "options s4 = JObj kv"
      "watchEnter s4 = watchEnter s3"
      "gPlace s4 = Some (g\<lparr>acTypes := if truthy (objGet kv ''types'')
                                         then objGet kv ''types'' else JArr [],
                            acBounds := if truthy (objGet kv ''bounds'')
                                          then objGet kv ''bounds'' else JNull,
                            acComponentRestrictions := if truthy (objGet kv ''country'')
                              then JObj [(''country'', objGet kv ''country'')] else JNull,
                            acFields := if truthy (objGet kv ''fields'')
                                          then objGet kv ''fields'' else JNull\<rparr>)"
    using initFields_object [of s3 kv] by auto
  have "initOpts s = Inr s4"
    using assms(1) w t(1) b(1) c(1) f(1) by (simp add: initOpts_def thenDo_def)
  with f(2,3,4) c(3) b(3) t(3) show ?thesis by simp
qed

text \<open>
  C4 (as amended). For an options object, every recognised sub-option with a truthy value
  is handed to the widget, and for every sub-option that is missing or falsy the filter of
  the widget is cleared: the types to the empty list, the bounds, the country restriction
  and the fields to \<^verbatim>\<open>null\<close>. For a falsy options value (\<^verbatim>\<open>undefined\<close> among them)
  \<^verbatim>\<open>initOpts\<close> does nothing: the widget and the flag keep what they had.
\<close>

theorem options_applied_or_cleared:
  assumes "gPlace s = Some g"
  shows "(\<exists>s'. supplyOptions (JObj kv) s = Inr s' \<and>
            watchEnter s' = (objGet kv ''watchEnter'' = JBool True) \<and>
            gPlace s' = Some (g\<lparr>
              acTypes := if truthy (objGet kv ''types'') then objGet kv ''types'' else JArr [],
              acBounds := if truthy (objGet kv ''bounds'') then objGet kv ''bounds'' else JNull,
              acComponentRestrictions := if truthy (objGet kv ''country'')
                then JObj [(''country'', objGet kv ''country'')] else JNull,
              acFields := if truthy (objGet kv ''fields'') then objGet kv ''fields'' else JNull\<rparr>)) \<and>
         (\<not> truthy v \<longrightarrow> supplyOptions v s = Inr (s\<lparr>options := v\<rparr>))"
proof
  show "\<exists>s'. supplyOptions (JObj kv) s = Inr s' \<and>
            watchEnter s' = (objGet kv ''watchEnter'' = JBool True) \<and>
            gPlace s' = Some (g\<lparr>
              acTypes := if truthy (objGet kv ''types'') then objGet kv ''types'' else JArr [],
              acBounds := if truthy (objGet kv ''bounds'') then objGet kv ''bounds'' else JNull,
              acComponentRestrictions := if truthy (objGet kv ''country'')
                then JObj [(''country'', objGet kv ''country'')] else JNull,
              acFields := if truthy (objGet kv ''fields'') then objGet kv ''fields'' else JNull\<rparr>)"
    using assms initOpts_object [of "s\<lparr>options := JObj kv\<rparr>" kv g]
    by (auto simp add: supplyOptions_def)
  show "\<not> truthy v \<longrightarrow> supplyOptions v s = Inr (s\<lparr>options := v\<rparr>)"
    by (simp add: supplyOptions_def initOpts_def)
qed

theorem options_applied_or_cleared_witness:
  "(\<exists>s'. supplyOptions (JObj [(''types'', JStr ''(cities)''), (''country'', JStr ''ca'')])
            attached = Inr s' \<and>
         watchEnter s' = False \<and>
         gPlace s' = Some \<lparr> acTypes = JStr ''(cities)'', acBounds = JNull,
                             acComponentRestrictions = JObj [(''country'', JStr ''ca'')],
                             acFields = JNull, acPlace = JUndefined \<rparr>) \<and>
   \<not> truthy JUndefined \<and>
   supplyOptions JUndefined attached = Inr (attached\<lparr>options := JUndefined\<rparr>)"
proof -
  have g: "gPlace attached = Some (newAutocomplete\<lparr>acFields := defaultPlacesFields\<rparr>)"
    by (simp add: attached_def)
  from options_applied_or_cleared [OF g,
      of "[(''types'', JStr ''(cities)''), (''country'', JStr ''ca'')]" JUndefined]
  show ?thesis
    by (simp add: objGet_def newAutocomplete_def)
qed

text \<open>
  After options with a country, an undefined options value leaves the country restriction
  on the widget. A sub-option that is present but falsy, here an empty country, is cleared
  like a missing one.
\<close>

theorem undefined_options_counterexample:
  "map_option acComponentRestrictions
     (gPlace (after (supplyOptions JUndefined
        (after (supplyOptions (JObj [(''country'', JStr ''ca'')]) attached)))))
     = Some (JObj [(''country'', JStr ''ca'')]) \<and>
   map_option acComponentRestrictions
     (gPlace (after (supplyOptions (JObj [(''country'', JStr [])]) attached)))
     = Some JNull"
  by (simp add: supplyOptions_def attached_def initOpts_def thenDo_def after_def
      initWatchEnter_def initTypes_def initBounds_def initCountry_def initFields_def
      onWidget_def objGet_def newAutocomplete_def)

text \<open>
  C9. With \<^verbatim>\<open>options\<close> undefined, \<^verbatim>\<open>link\<close> on a fresh scope throws a type error after
  it has bound the key handler and built the widget, and before any field list is set on
  the widget. In an attached directive whose \<^verbatim>\<open>watchEnter\<close> flag is on, a press of Enter
  on a non-empty text, with no place chosen, throws a type error as well, and sends no
  prediction query.
\<close>

theorem undefined_options_type_error:
  assumes "options s = JUndefined" and "gPlace s = None"
    and "options u = JUndefined" and "watchEnter u" and "gPlace u = Some g"
    and "\<not> truthyProp r ''address_components''"
    and "elementVal u = JStr t" and "t \<noteq> []"
  shows "(\<exists>s' w. link s = Inl (TypeError, s') \<and> gPlace s' = Some w \<and>
                 acFields w = JUndefined \<and>
                 registered s' = registered s @ [''keydown keypress'']) \<and>
         (\<exists>u'. enterPress r u = Inl (TypeError, u') \<and> effects u' = effects u)"
  using assms
  by (simp add: link_def thenDo_def newAutocomplete_def enterPress_def keyHandler_def
      setViewValue_def onWidget_def placeChanged_def placeChangedIn_def getPlace_def objGet_def)

theorem undefined_options_type_error_witness:
  "(\<exists>s' w. link (unattached JUndefined) = Inl (TypeError, s') \<and> gPlace s' = Some w \<and>
           acFields w = JUndefined \<and> registered s' = [''keydown keypress'']) \<and>
   (\<exists>u'. enterPress (JObj [(''name'', JStr ''Paris'')]) (watching\<lparr>options := JUndefined\<rparr>)
            = Inl (TypeError, u') \<and> effects u' = [])"
proof -
  have h1: "options (unattached JUndefined) = JUndefined"
    and h2: "gPlace (unattached JUndefined) = None"
    and h3: "options (watching\<lparr>options := JUndefined\<rparr>) = JUndefined"
    and h4: "watchEnter (watching\<lparr>options := JUndefined\<rparr>)"
    and h5: "gPlace (watching\<lparr>options := JUndefined\<rparr>) = Some \<lparr> acTypes = JArr [],
               acBounds = JNull, acComponentRestrictions = JNull, acFields = JNull,
               acPlace = JUndefined \<rparr>"
    and h6: "\<not> truthyProp (JObj [(''name'', JStr ''Paris'')]) ''address_components''"
    and h7: "elementVal (watching\<lparr>options := JUndefined\<rparr>) = JStr ''Paris''"
    and h8: "''Paris'' \<noteq> []"
    by (simp_all add: unattached_def watching_def truthyProp_def objGet_def)
  from undefined_options_type_error [OF h1 h2 h3 h4 h5 h6 h7 h8] show ?thesis
    by (simp add: unattached_def watching_def)
qed

section \<open>The field list of details requests\<close>

lemma detailsRequests_append:
  "detailsRequests (xs @ ys) = detailsRequests xs @ detailsRequests ys"
  by (induction xs rule: detailsRequests.induct) simp_all

lemma getPlaceDetails_request:
  assumes "getPlaceDetails list s = Inr s'"
  shows "\<exists>q. s' = emit (GetDetails q) s \<and> getProp q ''fields'' = Inr defaultPlacesFields"
  using assms
  by (auto simp add: getPlaceDetails_def Let_def objGet_def update_conv
      split: if_splits sum.splits)

lemma getPlaceDetails_throws:
  "getPlaceDetails list s = Inl (e, s') \<Longrightarrow> s' = s"
  by (auto simp add: getPlaceDetails_def Let_def split: if_splits sum.splits)

lemma defaultOnly_emit:
  "defaultOnly (emit e s) =
     (defaultOnly s \<and> (\<forall>q. e = GetDetails q \<longrightarrow> getProp q ''fields'' = Inr defaultPlacesFields))"
  by (cases e) (auto simp add: defaultOnly_def emit_def detailsRequests_append)

lemma defaultOnly_updates:
  "defaultOnly (s\<lparr>details := d\<rparr>) = defaultOnly s"
  "defaultOnly (s\<lparr>viewValue := v\<rparr>) = defaultOnly s"
  "defaultOnly (s\<lparr>elementVal := t\<rparr>) = defaultOnly s"
  "defaultOnly (s\<lparr>options := o1\<rparr>) = defaultOnly s"
  "defaultOnly (s\<lparr>placeId := p\<rparr>) = defaultOnly s"
  "defaultOnly (s\<lparr>initialAddress := a\<rparr>) = defaultOnly s"
  "defaultOnly (s\<lparr>focusoutHandlers := hs\<rparr>) = defaultOnly s"
  "defaultOnly (s\<lparr>focused := b\<rparr>) = defaultOnly s"
  "defaultOnly (s\<lparr>lastOptions := l1\<rparr>) = defaultOnly s"
  "defaultOnly (s\<lparr>lastPlaceId := l2\<rparr>) = defaultOnly s"
  "defaultOnly (s\<lparr>lastInitialAddress := l3\<rparr>) = defaultOnly s"
  by (simp_all add: defaultOnly_def)

lemma getPlaceDetails_defaultOnly:
  "defaultOnly s \<Longrightarrow> defaultOnly (after (getPlaceDetails list s))"
proof (cases "getPlaceDetails list s")
  case (Inl a)
  assume "defaultOnly s"
  with Inl show ?thesis
    by (cases a) (auto simp add: after_def dest: getPlaceDetails_throws)
next
  case (Inr s')
  assume "defaultOnly s"
  with Inr show ?thesis
    by (auto simp add: after_def defaultOnly_emit dest!: getPlaceDetails_request)
qed

lemma onWidget_effects:
  "effects (after (onWidget f s)) = effects s"
  by (simp add: onWidget_def after_def split: option.splits)

lemma thenDo_keeps:
  assumes "P (after r)" and "\<And>s. P s \<Longrightarrow> P (after (f s))"
  shows "P (after (thenDo r f))"
proof (cases r)
  case (Inl a)
  with assms(1) show ?thesis by (simp add: thenDo_def)
next
  case (Inr s)
  with assms show ?thesis by (simp add: thenDo_def after_def)
qed

lemma initWatchEnter_effects: "effects (after (initWatchEnter s)) = effects s"
  by (simp add: initWatchEnter_def after_def split: sum.splits)

lemma initTypes_effects: "effects (after (initTypes s)) = effects s"
  by (simp add: initTypes_def onWidget_effects split: sum.splits) (simp add: after_def)

lemma initBounds_effects: "effects (after (initBounds s)) = effects s"
  by (simp add: initBounds_def onWidget_effects split: sum.splits) (simp add: after_def)

lemma initCountry_effects: "effects (after (initCountry s)) = effects s"
  by (simp add: initCountry_def onWidget_effects split: sum.splits) (simp add: after_def)

lemma initFields_effects: "effects (after (initFields s)) = effects s"
  by (simp add: initFields_def onWidget_effects split: sum.splits) (simp add: after_def)

lemma initOpts_effects:
  "effects (after (initOpts s)) = effects s"
proof (cases "truthy (options s)")
  case True
  have "effects (after (thenDo (thenDo (thenDo (thenDo (initWatchEnter s) initTypes)
          initBounds) initCountry) initFields)) = effects s"
    by (intro thenDo_keeps [where P = "\<lambda>s'. effects s' = effects s"])
      (simp_all add: initWatchEnter_effects initTypes_effects initBounds_effects
        initCountry_effects initFields_effects)
  with True show ?thesis by (simp add: initOpts_def)
next
  case False
  then show ?thesis by (simp add: initOpts_def after_def)
qed

lemma initPlace_defaultOnly:
  "defaultOnly s \<Longrightarrow> defaultOnly (after (initPlace s))"
  by (simp add: initPlace_def getPlaceDetails_defaultOnly) (simp add: after_def)

lemma initInitialAddress_defaultOnly:
  "defaultOnly s \<Longrightarrow> defaultOnly (after (initInitialAddress s))"
  by (simp add: initInitialAddress_def after_def defaultOnly_emit)

lemma getPlace_defaultOnly:
  "defaultOnly s \<Longrightarrow> defaultOnly (after (getPlace r s))"
  by (auto simp add: getPlace_def after_def defaultOnly_emit split: sum.splits)

lemma fold_elementValSet_effects:
  "effects (fold elementValSet as s) = effects s"
  by (induction as arbitrary: s) (simp_all add: elementValSet_def)

lemma runFocusout_defaultOnly:
  "defaultOnly (runFocusout s) = defaultOnly s"
  by (simp add: runFocusout_def defaultOnly_def fold_elementValSet_effects)

lemma blur_defaultOnly:
  "defaultOnly (blur s) = defaultOnly s"
  by (simp add: blur_def Let_def runFocusout_defaultOnly defaultOnly_emit)

lemma placeChangedIn_defaultOnly:
  assumes "defaultOnly s"
  shows "defaultOnly (after (placeChangedIn inDigest s))"
proof (cases "getPlace (JObj [(''name'', viewValue s)]) s")
  case (Inl a)
  with assms getPlace_defaultOnly [of s "JObj [(''name'', viewValue s)]"] show ?thesis
    by (cases a)
      (auto simp add: placeChangedIn_def after_def thenDo_def setViewValue_def Let_def
        defaultOnly_updates split: option.splits)
next
  case (Inr s')
  with assms getPlace_defaultOnly [of s "JObj [(''name'', viewValue s)]"] show ?thesis
    by (auto simp add: placeChangedIn_def after_def thenDo_def setViewValue_def Let_def
        blur_defaultOnly defaultOnly_updates split: option.splits)
qed

lemma listentoresult_defaultOnly:
  assumes "defaultOnly s"
  shows "defaultOnly (after (listentoresult list status s))"
proof -
  have "defaultOnly ((emit (Emit ''ngPlacesAutocomplete:no-results'') s)\<lparr>details := JNull\<rparr>)"
    using assms by (simp add: defaultOnly_def emit_def detailsRequests_append)
  with assms getPlaceDetails_defaultOnly [of s list] show ?thesis
    by (auto simp add: listentoresult_def after_def split: sum.splits)
qed

lemma applyResolved_defaultOnly:
  "defaultOnly (applyResolved r s) = defaultOnly s"
  by (simp add: applyResolved_def emit_def elementValSet_def setViewValue_def
      detailsRequests_append defaultOnly_def split: sum.splits)

lemma detailsresult_defaultOnly:
  "defaultOnly s \<Longrightarrow> defaultOnly (after (detailsresult r status s))"
  by (simp add: detailsresult_def after_def applyResolved_defaultOnly)

lemma geocodeCallback_defaultOnly:
  "defaultOnly s \<Longrightarrow> defaultOnly (after (geocodeCallback results status s))"
  by (auto simp add: geocodeCallback_def after_def defaultOnly_emit
      applyResolved_defaultOnly split: sum.splits)

lemma caught_defaultOnly:
  "defaultOnly (caught r) = defaultOnly (after r)"
  by (cases r) (auto simp add: caught_def after_def defaultOnly_emit)

lemma watchOptions_defaultOnly:
  assumes "defaultOnly s"
  shows "defaultOnly (watchOptions s)"
proof -
  have "effects (after (initOpts (s\<lparr>lastOptions := Some (options s)\<rparr>))) = effects s"
    using initOpts_effects [of "s\<lparr>lastOptions := Some (options s)\<rparr>"] by simp
  with assms show ?thesis
    by (simp add: watchOptions_def caught_defaultOnly) (simp add: defaultOnly_def)
qed

lemma watchPlace_defaultOnly:
  "defaultOnly s \<Longrightarrow> defaultOnly (watchPlace s)"
  by (simp add: watchPlace_def caught_defaultOnly initPlace_defaultOnly defaultOnly_updates)

lemma watchAddress_defaultOnly:
  "defaultOnly s \<Longrightarrow> defaultOnly (watchAddress s)"
  by (simp add: watchAddress_def caught_defaultOnly initInitialAddress_defaultOnly
      defaultOnly_updates)

lemma digest_defaultOnly:
  "defaultOnly s \<Longrightarrow> defaultOnly (digest s)"
  by (simp add: digest_def watchOptions_defaultOnly watchPlace_defaultOnly
      watchAddress_defaultOnly)

lemma fire_defaultOnly:
  assumes "defaultOnly s"
  shows "defaultOnly (after (fire ev s))"
proof (cases ev)
  case (OptionsChanged v)
  with assms show ?thesis
    by (simp add: after_def digest_defaultOnly defaultOnly_updates)
next
  case (PlaceIdChanged v)
  with assms show ?thesis
    by (simp add: after_def digest_defaultOnly defaultOnly_updates)
next
  case (InitialAddressChanged v)
  with assms show ?thesis
    by (simp add: after_def digest_defaultOnly defaultOnly_updates)
next
  case Digest
  with assms show ?thesis by (simp add: after_def digest_defaultOnly)
next
  case Focus
  with assms show ?thesis by (simp add: after_def defaultOnly_updates)
next
  case FocusOut
  with assms show ?thesis by (simp add: after_def runFocusout_defaultOnly)
next
  case (Key which)
  with assms show ?thesis
    by (simp add: keyHandler_def after_def setViewValue_def defaultOnly_updates)
next
  case (FieldText t)
  with assms show ?thesis by (simp add: after_def defaultOnly_updates)
next
  case (ViewValue v)
  with assms show ?thesis by (simp add: after_def setViewValue_def defaultOnly_updates)
next
  case (Render v)
  with assms show ?thesis
    by (simp add: render_def after_def elementValSet_def setViewValue_def defaultOnly_updates)
next
  case (WidgetPlace r)
  with assms show ?thesis by (simp add: defaultOnly_def onWidget_effects)
next
  case PlaceChanged
  with assms show ?thesis by (simp add: placeChanged_def placeChangedIn_defaultOnly)
next
  case (Submit inDigest)
  with assms show ?thesis by (simp add: placeChangedIn_defaultOnly)
next
  case (PredictionsReply list status)
  with assms show ?thesis by (simp add: listentoresult_defaultOnly)
next
  case (DetailsReply r status)
  with assms show ?thesis by (simp add: detailsresult_defaultOnly)
next
  case (GeocodeReply results status)
  with assms show ?thesis by (simp add: geocodeCallback_defaultOnly)
qed

lemma run_defaultOnly:
  "defaultOnly s \<Longrightarrow> defaultOnly (run evs s)"
  by (induction evs arbitrary: s) (simp_all add: fire_defaultOnly)

lemma getPlaceDetails_initial:
  "\<exists>q. getPlaceDetails JUndefined s = Inr (emit (GetDetails q) s) \<and>
       getProp q ''fields'' = Inr defaultPlacesFields"
proof (cases "truthy (placeId s)")
  case True
  let ?q = "JObj [(''fields'', defaultPlacesFields), (''placeId'', placeId s)]"
  from True have "getPlaceDetails JUndefined s = Inr (emit (GetDetails ?q) s)"
    by (simp add: getPlaceDetails_def)
  moreover have "getProp ?q ''fields'' = Inr defaultPlacesFields"
    by (simp add: objGet_def)
  ultimately show ?thesis by blast
next
  case False
  let ?q = "JObj [(''fields'', defaultPlacesFields)]"
  from False have "getPlaceDetails JUndefined s = Inr (emit (GetDetails ?q) s)"
    by (simp add: getPlaceDetails_def)
  moreover have "getProp ?q ''fields'' = Inr defaultPlacesFields"
    by (simp add: objGet_def)
  ultimately show ?thesis by blast
qed

lemma getPlaceDetails_first_prediction:
  "\<exists>q. getPlaceDetails (JArr (JObj p # ps)) s = Inr (emit (GetDetails q) s) \<and>
       getProp q ''fields'' = Inr defaultPlacesFields"
proof (cases "truthy (placeId s)")
  case True
  let ?q = "JObj [(''fields'', defaultPlacesFields), (''placeId'', placeId s),
                  (''reference'', objGet p ''reference'')]"
  from True have "getPlaceDetails (JArr (JObj p # ps)) s = Inr (emit (GetDetails ?q) s)"
    by (simp add: getPlaceDetails_def)
  moreover have "getProp ?q ''fields'' = Inr defaultPlacesFields"
    by (simp add: objGet_def)
  ultimately show ?thesis by blast
next
  case False
  let ?q = "JObj [(''fields'', defaultPlacesFields), (''reference'', objGet p ''reference'')]"
  from False have "getPlaceDetails (JArr (JObj p # ps)) s = Inr (emit (GetDetails ?q) s)"
    by (simp add: getPlaceDetails_def)
  moreover have "getProp ?q ''fields'' = Inr defaultPlacesFields"
    by (simp add: objGet_def)
  ultimately show ?thesis by blast
qed

text \<open>
  C10. Start from a state that has sent nothing. After any sequence of events, with any
  options values among them, every details request that was sent asks for exactly the
  default field list. A truthy \<^verbatim>\<open>fields\<close> value in the options is handed to the widget
  and sends nothing; the details request of the place id initialisation and the one for
  the first prediction, made after it, still ask for the default field list.
\<close>

theorem details_requests_default_fields:
  assumes "effects s = []" and "q \<in> set (detailsRequests (effects (run evs s)))"
    and "gPlace u = Some g" and "truthy (objGet kv ''fields'')"
  shows "getProp q ''fields'' = Inr defaultPlacesFields \<and>
         (\<exists>u' g' q1 q2.
            supplyOptions (JObj kv) u = Inr u' \<and> effects u' = effects u \<and>
            gPlace u' = Some g' \<and> acFields g' = objGet kv ''fields'' \<and>
            getPlaceDetails JUndefined u' = Inr (emit (GetDetails q1) u') \<and>
            getProp q1 ''fields'' = Inr defaultPlacesFields \<and>
            getPlaceDetails (JArr (JObj p # ps)) u' = Inr (emit (GetDetails q2) u') \<and>
            getProp q2 ''fields'' = Inr defaultPlacesFields)"
proof
  from assms(1) have "defaultOnly s" by (simp add: defaultOnly_def)
  then have "defaultOnly (run evs s)" by (rule run_defaultOnly)
  with assms(2) show "getProp q ''fields'' = Inr defaultPlacesFields"
    by (simp add: defaultOnly_def)
next
  let ?u0 = "u\<lparr>options := JObj kv\<rparr>"
  from assms(3) obtain u' where
    1: "initOpts ?u0 = Inr u'" and
    2: "gPlace u' = Some (g\<lparr>
            acTypes := if truthy (objGet kv ''types'') then objGet kv ''types'' else JArr [],
            acBounds := if truthy (objGet kv ''bounds'') then objGet kv ''bounds'' else JNull,
            acComponentRestrictions := if truthy (objGet kv ''country'')
              then JObj [(''country'', objGet kv ''country'')] else JNull,
            acFields := if truthy (objGet kv ''fields'') then objGet kv ''fields'' else JNull\<rparr>)"
    using initOpts_object [of ?u0 kv g] by auto
  from 1 have 3: "effects u' = effects u"
    using initOpts_effects [of ?u0] by (simp add: after_def)
  from 2 assms(4) have 4: "\<exists>g'. gPlace u' = Some g' \<and> acFields g' = objGet kv ''fields''"
    by simp
  from 1 3 4 getPlaceDetails_initial [of u'] getPlaceDetails_first_prediction [of p ps u']
  show "\<exists>u' g' q1 q2.
            supplyOptions (JObj kv) u = Inr u' \<and> effects u' = effects u \<and>
            gPlace u' = Some g' \<and> acFields g' = objGet kv ''fields'' \<and>
            getPlaceDetails JUndefined u' = Inr (emit (GetDetails q1) u') \<and>
            getProp q1 ''fields'' = Inr defaultPlacesFields \<and>
            getPlaceDetails (JArr (JObj p # ps)) u' = Inr (emit (GetDetails q2) u') \<and>
            getProp q2 ''fields'' = Inr defaultPlacesFields"
    unfolding supplyOptions_def by blast
qed

theorem details_requests_default_fields_witness:
  "effects attached = [] \<and>
   JObj [(''fields'', defaultPlacesFields), (''placeId'', JStr ''abc123'')]
     \<in> set (detailsRequests (effects (run
          [OptionsChanged (JObj [(''fields'', JArr [JStr ''name''])]),
           PlaceIdChanged (JStr ''abc123'')] attached))) \<and>
   getProp (JObj [(''fields'', defaultPlacesFields), (''placeId'', JStr ''abc123'')]) ''fields''
     = Inr defaultPlacesFields \<and>
   (\<exists>u' g' q1 q2.
      supplyOptions (JObj [(''fields'', JArr [JStr ''name''])]) attached = Inr u' \<and>
      effects u' = effects attached \<and>
      gPlace u' = Some g' \<and> acFields g' = JArr [JStr ''name''] \<and>
      getPlaceDetails JUndefined u' = Inr (emit (GetDetails q1) u') \<and>
      getProp q1 ''fields'' = Inr defaultPlacesFields \<and>
      getPlaceDetails (JArr [JObj [(''reference'', JStr ''ref1'')]]) u'
        = Inr (emit (GetDetails q2) u') \<and>
      getProp q2 ''fields'' = Inr defaultPlacesFields)"
proof -
  have e: "effects attached = []" by (simp add: attached_def)
  have m: "JObj [(''fields'', defaultPlacesFields), (''placeId'', JStr ''abc123'')]
     \<in> set (detailsRequests (effects (run
          [OptionsChanged (JObj [(''fields'', JArr [JStr ''name''])]),
           PlaceIdChanged (JStr ''abc123'')] attached)))"
    by (simp add: attached_def digest_def watchOptions_def watchPlace_def watchAddress_def
        dirty_def caught_def initOpts_def thenDo_def after_def initWatchEnter_def
        initTypes_def initBounds_def initCountry_def initFields_def onWidget_def objGet_def
        initPlace_def initInitialAddress_def truthyProp_def getPlaceDetails_def emit_def)
  have g: "gPlace attached = Some (newAutocomplete\<lparr>acFields := defaultPlacesFields\<rparr>)"
    by (simp add: attached_def)
  have f: "truthy (objGet [(''fields'', JArr [JStr ''name''])] ''fields'')"
    by (simp add: objGet_def)
  from details_requests_default_fields [OF e m g f, of "[(''reference'', JStr ''ref1'')]" "[]"]
    e m show ?thesis
    by (simp add: objGet_def)
qed

end
